theory Spec2Isabelle
  imports Complex_Main "HOL-Library.Sublist" "HOL-Library.Log_Nat"
begin

text \<open>
  A model of the ingredient engine of Purelytics: the name normalizer, the matcher against
  the reference table, the assessment of unknown ingredients and the scoring pass
  (\<^verbatim>\<open>ingredientParser.js\<close>, \<^verbatim>\<open>ingredientDatabase.js\<close>), and the ranker of
  alternatives by category (the AI service module, \<^verbatim>\<open>aiService.js\<close>). Every function of the source is a
  function here, under its own name; a loop is a recursion over the list it walks; an
  exception is a value of a sum type; the clock is an input.
\<close>

section \<open>JavaScript string primitives\<close>

text \<open>
  Ingredient names, categories and prices are JavaScript strings. The model reads a
  \<^typ>\<open>string\<close> as a sequence of character codes below 256 (the Latin-1 range of
  UTF-16 code units), on which the platform functions used by the source behave as follows.
  \<^item> \<^verbatim>\<open>toLowerCase\<close> maps A-Z and the accented capitals 192-222 (except the
    multiplication sign 215) to the code 32 above; every other code is unchanged.
  \<^item> the regular-expression class \<^verbatim>\<open>\s\<close> and \<^verbatim>\<open>trim\<close> treat the codes 9-13, 32 and
    160 as white space.
\<close>

definition toLowerChar :: "char \<Rightarrow> char" where
  "toLowerChar c =
     (let n = (of_char c :: nat)
      in if (65 \<le> n \<and> n \<le> 90) \<or> (192 \<le> n \<and> n \<le> 222 \<and> n \<noteq> 215)
         then char_of (n + 32) else c)"

definition toLowerCase :: "string \<Rightarrow> string" where
  "toLowerCase s = map toLowerChar s"

definition isSpace :: "char \<Rightarrow> bool" where
  "isSpace c = (let n = (of_char c :: nat) in (9 \<le> n \<and> n \<le> 13) \<or> n = 32 \<or> n = 160)"

definition isLowerAlnum :: "char \<Rightarrow> bool" where
  "isLowerAlnum c = (let n = (of_char c :: nat) in (97 \<le> n \<and> n \<le> 122) \<or> (48 \<le> n \<and> n \<le> 57))"

definition trim :: "string \<Rightarrow> string" where
  "trim s = rev (dropWhile isSpace (rev (dropWhile isSpace s)))"

text \<open>\<^verbatim>\<open>s.includes(t)\<close>: does \<open>t\<close> occur in \<open>s\<close> as a contiguous run of characters?\<close>

fun startsWith :: "string \<Rightarrow> string \<Rightarrow> bool" where
  "startsWith s [] = True"
| "startsWith [] (d # t) = False"
| "startsWith (c # s) (d # t) = (c = d \<and> startsWith s t)"

fun includesStr :: "string \<Rightarrow> string \<Rightarrow> bool" where
  "includesStr [] t = (t = [])"
| "includesStr (c # s) t = (startsWith (c # s) t \<or> includesStr s t)"

text \<open>\<^verbatim>\<open>s.replace(/\s+/g, r)\<close>: every maximal run of white space becomes one copy of \<open>r\<close>.\<close>

function replaceSpaceRuns :: "string \<Rightarrow> string \<Rightarrow> string" where
  "replaceSpaceRuns r [] = []"
| "replaceSpaceRuns r (c # s) =
     (if isSpace c then r @ replaceSpaceRuns r (dropWhile isSpace s)
      else c # replaceSpaceRuns r s)"
  by pat_completeness auto
termination
  by (relation "measure (\<lambda>(r, s). length s)")
     (auto intro: le_imp_less_Suc length_dropWhile_le)

section \<open>Name normalizer (ingredientParser.js)\<close>

text \<open>
  \<^verbatim>\<open>name.toLowerCase().replace(/[^a-z0-9\s]/g, '').replace(/\s+/g, ' ').trim()\<close>
\<close>

definition normalizeIngredient :: "string \<Rightarrow> string" where
  "normalizeIngredient name =
     trim (replaceSpaceRuns '' ''
       (filter (\<lambda>c. isLowerAlnum c \<or> isSpace c) (toLowerCase name)))"

section \<open>Reference database (ingredientDatabase.js)\<close>

text \<open>
  An entry of the reference table. The fields are those the matcher and the scoring pass
  read; the explanatory texts of an entry (plain-English description, health notes,
  regulatory status, sources) are copied to the screen only and are left out.
  The source's field names \<^verbatim>\<open>id\<close>, \<^verbatim>\<open>name\<close>, \<^verbatim>\<open>category\<close>, \<^verbatim>\<open>score\<close> and
  \<^verbatim>\<open>concern\<close> carry the prefix \<open>rec_\<close>. The safe ingredients have no
  \<^verbatim>\<open>hiddenNames\<close> property, which is \<open>None\<close> here.
\<close>

datatype concern = Low | Moderate | High

record ingredientRecord =
  rec_id :: string
  rec_name :: string
  rec_category :: string
  rec_score :: int
  rec_concern :: concern
  hiddenNames :: "string list option"
  kidAlert :: bool
  heartHealthAlert :: bool
  diabeticAlert :: bool

definition sodium_nitrite :: ingredientRecord where
  "sodium_nitrite =
    \<lparr>rec_id = ''sodium-nitrite'', rec_name = ''Sodium Nitrite'',
     rec_category = ''Preservative'', rec_score = 25, rec_concern = High,
     hiddenNames = Some
       [''Curing salt'',
        ''Prague Powder #1'',
        ''Pink curing salt'',
        ''Nitrite pickling salt'',
        ''Celery powder'',
        ''Celery juice'',
        ''Celery extract''],
     kidAlert = True, heartHealthAlert = True, diabeticAlert = False\<rparr>"

definition sodium_benzoate :: ingredientRecord where
  "sodium_benzoate =
    \<lparr>rec_id = ''sodium-benzoate'', rec_name = ''Sodium Benzoate'',
     rec_category = ''Preservative'', rec_score = 45, rec_concern = Moderate,
     hiddenNames = Some
       [''Benzoate of soda'',
        ''Sodium salt of benzoic acid'',
        ''Benzoic acid (E210)'',
        ''Potassium benzoate (E212)'',
        ''Calcium benzoate (E213)''],
     kidAlert = True, heartHealthAlert = False, diabeticAlert = False\<rparr>"

definition bha :: ingredientRecord where
  "bha =
    \<lparr>rec_id = ''bha'', rec_name = ''BHA (Butylated Hydroxyanisole)'',
     rec_category = ''Preservative/Antioxidant'', rec_score = 30, rec_concern = High,
     hiddenNames = Some
       [''Butylated hydroxyanisole'',
        ''tert-butyl-4-hydroxyanisole'',
        ''Antioxidant BHA'',
        ''E320''],
     kidAlert = True, heartHealthAlert = False, diabeticAlert = False\<rparr>"

definition bht :: ingredientRecord where
  "bht =
    \<lparr>rec_id = ''bht'', rec_name = ''BHT (Butylated Hydroxytoluene)'',
     rec_category = ''Preservative/Antioxidant'', rec_score = 40, rec_concern = Moderate,
     hiddenNames = Some
       [''Butylated hydroxytoluene'',
        ''2,6-di-tert-butyl-4-methylphenol'',
        ''DBPC'',
        ''E321''],
     kidAlert = True, heartHealthAlert = False, diabeticAlert = False\<rparr>"

definition potassium_bromate :: ingredientRecord where
  "potassium_bromate =
    \<lparr>rec_id = ''potassium-bromate'', rec_name = ''Potassium Bromate'',
     rec_category = ''Flour Improver'', rec_score = 10, rec_concern = High,
     hiddenNames = Some
       [''Bromate'',
        ''Bromated flour'',
        ''KBrO3''],
     kidAlert = True, heartHealthAlert = False, diabeticAlert = False\<rparr>"

definition calcium_propionate :: ingredientRecord where
  "calcium_propionate =
    \<lparr>rec_id = ''calcium-propionate'', rec_name = ''Calcium Propionate'',
     rec_category = ''Preservative'', rec_score = 85, rec_concern = Low,
     hiddenNames = Some
       [''Calcium propanoate'',
        ''E282''],
     kidAlert = False, heartHealthAlert = False, diabeticAlert = False\<rparr>"

definition aspartame :: ingredientRecord where
  "aspartame =
    \<lparr>rec_id = ''aspartame'', rec_name = ''Aspartame'',
     rec_category = ''Artificial Sweetener'', rec_score = 35, rec_concern = High,
     hiddenNames = Some
       [''NutraSweet'',
        ''Equal'',
        ''Canderel'',
        ''AminoSweet'',
        ''L-aspartyl-L-phenylalanine methyl ester'',
        ''E951''],
     kidAlert = True, heartHealthAlert = False, diabeticAlert = True\<rparr>"

definition sucralose :: ingredientRecord where
  "sucralose =
    \<lparr>rec_id = ''sucralose'', rec_name = ''Sucralose'',
     rec_category = ''Artificial Sweetener'', rec_score = 40, rec_concern = Moderate,
     hiddenNames = Some
       [''Splenda'',
        ''Sukrana'',
        ''SucraPlus'',
        ''Candys'',
        ''Nevella'',
        ''E955''],
     kidAlert = True, heartHealthAlert = False, diabeticAlert = True\<rparr>"

definition high_fructose_corn_syrup :: ingredientRecord where
  "high_fructose_corn_syrup =
    \<lparr>rec_id = ''high-fructose-corn-syrup'', rec_name = ''High Fructose Corn Syrup'',
     rec_category = ''Sweetener'', rec_score = 30, rec_concern = High,
     hiddenNames = Some
       [''Isoglucose'',
        ''Glucose-fructose syrup'',
        ''Fructose-glucose syrup'',
        ''Corn sugar (rejected by FDA)'',
        ''Maize syrup'',
        ''HFCS-42'',
        ''HFCS-55'',
        ''HFCS-90''],
     kidAlert = True, heartHealthAlert = True, diabeticAlert = True\<rparr>"

definition red_40 :: ingredientRecord where
  "red_40 =
    \<lparr>rec_id = ''red-40'', rec_name = ''Red 40 (Allura Red AC)'',
     rec_category = ''Artificial Color'', rec_score = 35, rec_concern = High,
     hiddenNames = Some
       [''Allura Red AC'',
        ''CI 16035'',
        ''Red 40 Lake'',
        ''FD&C Red No. 40'',
        ''INS 129'',
        ''E129''],
     kidAlert = True, heartHealthAlert = False, diabeticAlert = False\<rparr>"

definition yellow_5 :: ingredientRecord where
  "yellow_5 =
    \<lparr>rec_id = ''yellow-5'', rec_name = ''Yellow 5 (Tartrazine)'',
     rec_category = ''Artificial Color'', rec_score = 35, rec_concern = High,
     hiddenNames = Some
       [''Tartrazine'',
        ''CI 19140'',
        ''Acid Yellow 23'',
        ''FD&C Yellow No. 5'',
        ''INS 102'',
        ''E102''],
     kidAlert = True, heartHealthAlert = False, diabeticAlert = False\<rparr>"

definition yellow_6 :: ingredientRecord where
  "yellow_6 =
    \<lparr>rec_id = ''yellow-6'', rec_name = ''Yellow 6 (Sunset Yellow)'',
     rec_category = ''Artificial Color'', rec_score = 35, rec_concern = High,
     hiddenNames = Some
       [''Sunset Yellow FCF'',
        ''CI 15985'',
        ''Orange Yellow S'',
        ''FD&C Yellow No. 6'',
        ''INS 110'',
        ''E110''],
     kidAlert = True, heartHealthAlert = False, diabeticAlert = False\<rparr>"

definition red_3 :: ingredientRecord where
  "red_3 =
    \<lparr>rec_id = ''red-3'', rec_name = ''Red 3 (Erythrosine)'',
     rec_category = ''Artificial Color'', rec_score = 15, rec_concern = High,
     hiddenNames = Some
       [''Erythrosine B'',
        ''CI 45430'',
        ''Acid Red 51'',
        ''FD&C Red No. 3'',
        ''INS 127'',
        ''E127''],
     kidAlert = True, heartHealthAlert = False, diabeticAlert = False\<rparr>"

definition caramel_color :: ingredientRecord where
  "caramel_color =
    \<lparr>rec_id = ''caramel-color'', rec_name = ''Caramel Color (Class III/IV)'',
     rec_category = ''Color'', rec_score = 50, rec_concern = Moderate,
     hiddenNames = Some
       [''Caramel color'',
        ''E150a (Class I - Plain, safer)'',
        ''E150b (Class II - Caustic sulfite)'',
        ''E150c (Class III - Ammonia, contains 4-MEI)'',
        ''E150d (Class IV - Sulfite ammonia, contains 4-MEI)''],
     kidAlert = True, heartHealthAlert = False, diabeticAlert = False\<rparr>"

definition carrageenan :: ingredientRecord where
  "carrageenan =
    \<lparr>rec_id = ''carrageenan'', rec_name = ''Carrageenan'',
     rec_category = ''Thickener/Stabilizer'', rec_score = 55, rec_concern = Moderate,
     hiddenNames = Some
       [''Irish moss extract'',
        ''Chondrus crispus extract'',
        ''E407a (processed Eucheuma seaweed)'',
        ''PES'',
        ''E407''],
     kidAlert = True, heartHealthAlert = False, diabeticAlert = False\<rparr>"

definition xanthan_gum :: ingredientRecord where
  "xanthan_gum =
    \<lparr>rec_id = ''xanthan-gum'', rec_name = ''Xanthan Gum'',
     rec_category = ''Thickener/Stabilizer'', rec_score = 90, rec_concern = Low,
     hiddenNames = Some
       [''Corn sugar gum'',
        ''Polysaccharide gum'',
        ''E415''],
     kidAlert = False, heartHealthAlert = False, diabeticAlert = False\<rparr>"

definition mono_diglycerides :: ingredientRecord where
  "mono_diglycerides =
    \<lparr>rec_id = ''mono-diglycerides'', rec_name = ''Mono- and Diglycerides'',
     rec_category = ''Emulsifier'', rec_score = 40, rec_concern = Moderate,
     hiddenNames = Some
       [''Glyceryl monostearate (GMS)'',
        ''Glyceryl monopalmitate'',
        ''Distilled monoglycerides'',
        ''Acetylated monoglycerides'',
        ''DATEM (E472e)'',
        ''E471''],
     kidAlert = False, heartHealthAlert = True, diabeticAlert = False\<rparr>"

definition msg :: ingredientRecord where
  "msg =
    \<lparr>rec_id = ''msg'', rec_name = ''MSG (Monosodium Glutamate)'',
     rec_category = ''Flavor Enhancer'', rec_score = 70, rec_concern = Low,
     hiddenNames = Some
       [''Glutamic acid (E620)'',
        ''Monopotassium glutamate (E622)'',
        ''Yeast extract'',
        ''Autolyzed yeast'',
        ''Hydrolyzed protein'',
        ''Natural flavors (may contain)''],
     kidAlert = False, heartHealthAlert = False, diabeticAlert = False\<rparr>"

definition maltodextrin :: ingredientRecord where
  "maltodextrin =
    \<lparr>rec_id = ''maltodextrin'', rec_name = ''Maltodextrin'',
     rec_category = ''Filler/Thickener'', rec_score = 50, rec_concern = Moderate,
     hiddenNames = Some
       [''Modified cornstarch'',
        ''Modified food starch'',
        ''Glucose polymer'',
        ''Dextrin'',
        ''Corn starch solids''],
     kidAlert = False, heartHealthAlert = False, diabeticAlert = True\<rparr>"

definition partially_hydrogenated_oils :: ingredientRecord where
  "partially_hydrogenated_oils =
    \<lparr>rec_id = ''partially-hydrogenated-oils'', rec_name = ''Partially Hydrogenated Oils (PHOs)'',
     rec_category = ''Fat/Oil'', rec_score = 5, rec_concern = High,
     hiddenNames = Some
       [''Partially hydrogenated vegetable oil'',
        ''Partially hydrogenated soybean oil'',
        ''Partially hydrogenated cottonseed oil'',
        ''Partially hydrogenated canola oil'',
        ''Shortening (when made from PHOs)'',
        ''Hard margarine''],
     kidAlert = True, heartHealthAlert = True, diabeticAlert = True\<rparr>"

definition citric_acid :: ingredientRecord where
  "citric_acid =
    \<lparr>rec_id = ''citric-acid'', rec_name = ''Citric Acid'',
     rec_category = ''Acidulant/Preservative'', rec_score = 90, rec_concern = Low,
     hiddenNames = None,
     kidAlert = False, heartHealthAlert = False, diabeticAlert = False\<rparr>"

definition ascorbic_acid :: ingredientRecord where
  "ascorbic_acid =
    \<lparr>rec_id = ''ascorbic-acid'', rec_name = ''Ascorbic Acid (Vitamin C)'',
     rec_category = ''Antioxidant/Vitamin'', rec_score = 95, rec_concern = Low,
     hiddenNames = None,
     kidAlert = False, heartHealthAlert = False, diabeticAlert = False\<rparr>"

definition tocopherols :: ingredientRecord where
  "tocopherols =
    \<lparr>rec_id = ''tocopherols'', rec_name = ''Tocopherols (Vitamin E)'',
     rec_category = ''Antioxidant/Vitamin'', rec_score = 92, rec_concern = Low,
     hiddenNames = None,
     kidAlert = False, heartHealthAlert = False, diabeticAlert = False\<rparr>"

definition stevia :: ingredientRecord where
  "stevia =
    \<lparr>rec_id = ''stevia'', rec_name = ''Stevia (Steviol Glycosides)'',
     rec_category = ''Natural Sweetener'', rec_score = 80, rec_concern = Low,
     hiddenNames = None,
     kidAlert = False, heartHealthAlert = False, diabeticAlert = False\<rparr>"

definition pectin :: ingredientRecord where
  "pectin =
    \<lparr>rec_id = ''pectin'', rec_name = ''Pectin'',
     rec_category = ''Gelling Agent'', rec_score = 95, rec_concern = Low,
     hiddenNames = None,
     kidAlert = False, heartHealthAlert = False, diabeticAlert = False\<rparr>"

definition preservatives_table :: "(string \<times> ingredientRecord) list" where
  "preservatives_table =
    [(''sodium-nitrite'', sodium_nitrite),
     (''sodium-benzoate'', sodium_benzoate),
     (''bha'', bha),
     (''bht'', bht),
     (''potassium-bromate'', potassium_bromate),
     (''calcium-propionate'', calcium_propionate)]"

definition artificialSweeteners :: "(string \<times> ingredientRecord) list" where
  "artificialSweeteners =
    [(''aspartame'', aspartame),
     (''sucralose'', sucralose),
     (''high-fructose-corn-syrup'', high_fructose_corn_syrup)]"

definition artificialColors :: "(string \<times> ingredientRecord) list" where
  "artificialColors =
    [(''red-40'', red_40),
     (''yellow-5'', yellow_5),
     (''yellow-6'', yellow_6),
     (''red-3'', red_3),
     (''caramel-color'', caramel_color)]"

definition emulsifiersThickeners :: "(string \<times> ingredientRecord) list" where
  "emulsifiersThickeners =
    [(''carrageenan'', carrageenan),
     (''xanthan-gum'', xanthan_gum),
     (''mono-diglycerides'', mono_diglycerides)]"

definition otherAdditives :: "(string \<times> ingredientRecord) list" where
  "otherAdditives =
    [(''msg'', msg),
     (''maltodextrin'', maltodextrin),
     (''partially-hydrogenated-oils'', partially_hydrogenated_oils)]"

definition safeIngredients :: "(string \<times> ingredientRecord) list" where
  "safeIngredients =
    [(''citric-acid'', citric_acid),
     (''ascorbic-acid'', ascorbic_acid),
     (''tocopherols'', tocopherols),
     (''stevia'', stevia),
     (''pectin'', pectin)]"


text \<open>
  The combined table spreads the six tables into one object, so that
  \<^verbatim>\<open>Object.entries\<close> walks them in this order (no key is an array index, and no key
  occurs twice). The table of preservatives is \<open>preservatives_table\<close> here, since
  the tally of the scoring pass has a field of the same name.
\<close>

definition ingredientDatabase :: "(string \<times> ingredientRecord) list" where
  "ingredientDatabase =
     preservatives_table @ artificialSweeteners @ artificialColors @
     emulsifiersThickeners @ otherAdditives @ safeIngredients"

definition hiddenSugarNames :: "string list" where
  "hiddenSugarNames =
    [''sucrose'', ''glucose'', ''fructose'', ''dextrose'', ''maltose'', ''lactose'',
     ''galactose'', ''trehalose'', ''high fructose corn syrup'', ''corn syrup'',
     ''corn syrup solids'', ''malt syrup'', ''maple syrup'', ''rice syrup'',
     ''brown rice syrup'', ''golden syrup'', ''agave syrup'', ''agave nectar'',
     ''carob syrup'', ''buttered syrup'', ''sorghum syrup'', ''refiner's syrup'',
     ''tapioca syrup'', ''oat syrup'', ''starch syrup'', ''brown sugar'', ''cane sugar'',
     ''raw sugar'', ''beet sugar'', ''coconut sugar'', ''coconut palm sugar'',
     ''date sugar'', ''grape sugar'', ''golden sugar'', ''yellow sugar'', ''castor sugar'',
     ''confectioner's sugar'', ''powdered sugar'', ''icing sugar'', ''turbinado sugar'',
     ''demerara sugar'', ''muscovado sugar'', ''panela sugar'', ''sucanat'',
     ''granulated sugar'', ''table sugar'', ''florida crystals'', ''cane juice crystals'',
     ''organic raw sugar'', ''fruit juice'', ''fruit juice concentrate'',
     ''evaporated cane juice'', ''concentrated fruit juice'', ''barley malt'',
     ''barley malt extract'', ''malt extract'', ''maltodextrin'', ''diastatic malt'',
     ''ethyl maltol'', ''malted barley'', ''honey'', ''molasses'', ''blackstrap molasses'',
     ''treacle'', ''invert sugar'', ''crystalline fructose'', ''dextrin'', ''caramel'',
     ''panocha'', ''glucose syrup solids'', ''mannose'', ''sweet sorghum'']"


record msgNames =
  alwaysContainsMSG :: "string list"
  oftenContainsMSG :: "string list"
  synergisticIndicators :: "string list"

definition hiddenMSGNames :: msgNames where
  "hiddenMSGNames =
    \<lparr>alwaysContainsMSG =
    [''monosodium glutamate'', ''glutamic acid'', ''glutamate'',
     ''monopotassium glutamate'', ''calcium glutamate'', ''monoammonium glutamate'',
     ''magnesium glutamate'', ''natrium glutamate'', ''yeast extract'', ''torula yeast'',
     ''autolyzed yeast'', ''brewer's yeast'', ''nutritional yeast'', ''yeast food'',
     ''yeast nutrient'', ''hydrolyzed protein'', ''hydrolyzed soy protein'',
     ''hydrolyzed wheat protein'', ''hydrolyzed pea protein'', ''hydrolyzed whey protein'',
     ''hydrolyzed corn protein'', ''hydrolyzed vegetable protein'', ''calcium caseinate'',
     ''sodium caseinate'', ''gelatin'', ''textured protein'', ''soy protein'',
     ''soy protein concentrate'', ''soy protein isolate'', ''whey protein'',
     ''whey protein concentrate'', ''whey protein isolate'', ''soy sauce'',
     ''soy sauce extract'', ''protease'', ''vetsin'', ''ajinomoto''],
     oftenContainsMSG =
    [''carrageenan'', ''bouillon'', ''broth'', ''stock'', ''flavors'', ''flavoring'',
     ''natural flavor'', ''natural flavoring'', ''maltodextrin'', ''oligodextrin'',
     ''citric acid'', ''barley malt'', ''malted barley'', ''pectin'', ''malt extract'',
     ''seasonings''],
     synergisticIndicators =
    [''disodium 5'-guanylate (E627)'', ''disodium 5'-inosinate (E631)'',
     ''disodium 5'-ribonucleotides (E635)'']\<rparr>"

subsection \<open>Utility functions of the database module\<close>

text \<open>
  \<^verbatim>\<open>searchIngredients(query)\<close> collects, in table order, a copy of every entry whose
  lower-cased name contains the lower-cased, trimmed query, or else one of whose
  lower-cased hidden names does. \<^verbatim>\<open>Array.find\<close> yields the first such hidden name, and
  the test \<^verbatim>\<open>if (hiddenMatch)\<close> rejects the empty string.
\<close>

record searchResult =
  ingredient :: ingredientRecord
  matchType :: string
  matchedName :: "string option"

fun searchLoop :: "string \<Rightarrow> (string \<times> ingredientRecord) list \<Rightarrow> searchResult list" where
  "searchLoop normalizedQuery [] = []"
| "searchLoop normalizedQuery ((key, ingr) # rest) =
     (if includesStr (toLowerCase (rec_name ingr)) normalizedQuery
      then \<lparr>ingredient = ingr, matchType = ''name'', matchedName = None\<rparr>
             # searchLoop normalizedQuery rest
      else case hiddenNames ingr of
             None \<Rightarrow> searchLoop normalizedQuery rest
           | Some hs \<Rightarrow>
               (case find (\<lambda>name. includesStr (toLowerCase name) normalizedQuery) hs of
                  None \<Rightarrow> searchLoop normalizedQuery rest
                | Some hiddenMatch \<Rightarrow>
                    if hiddenMatch \<noteq> []
                    then \<lparr>ingredient = ingr, matchType = ''hidden'',
                           matchedName = Some hiddenMatch\<rparr>
                           # searchLoop normalizedQuery rest
                    else searchLoop normalizedQuery rest))"

definition searchIngredients :: "string \<Rightarrow> searchResult list" where
  "searchIngredients query =
     (let normalizedQuery = trim (toLowerCase query)
      in searchLoop normalizedQuery ingredientDatabase)"

definition isHiddenSugar :: "string \<Rightarrow> bool" where
  "isHiddenSugar name =
     list_ex (\<lambda>sugar. includesStr (toLowerCase name) (toLowerCase sugar)) hiddenSugarNames"

record msgCheck =
  containsMSG :: bool
  certainty :: "string option"

definition checkForMSG :: "string \<Rightarrow> msgCheck" where
  "checkForMSG name =
     (let normalizedName = toLowerCase name
      in if list_ex (\<lambda>n. includesStr normalizedName (toLowerCase n))
              (alwaysContainsMSG hiddenMSGNames)
         then \<lparr>containsMSG = True, certainty = Some ''high''\<rparr>
         else if list_ex (\<lambda>n. includesStr normalizedName (toLowerCase n))
              (oftenContainsMSG hiddenMSGNames)
         then \<lparr>containsMSG = True, certainty = Some ''moderate''\<rparr>
         else \<lparr>containsMSG = False, certainty = None\<rparr>)"

section \<open>Matcher (ingredientParser.js)\<close>

text \<open>
  \<^verbatim>\<open>findIngredientMatch\<close> first asks \<^verbatim>\<open>searchIngredients\<close> with the raw name and takes
  its first result. Otherwise one loop over the table returns the first entry that passes
  any of three tests in turn: equal normalized names, containment of one normalized name
  in the other, containment either way between the normalized raw name and a normalized
  hidden name. The result of the search is a copy of the entry with the match type added,
  which no caller in the parser reads; the model returns the entry.
\<close>

fun hiddenNamesLoop :: "string \<Rightarrow> string list \<Rightarrow> bool" where
  "hiddenNamesLoop normalized [] = False"
| "hiddenNamesLoop normalized (hiddenName # rest) =
     (let hiddenNormalized = normalizeIngredient hiddenName
      in if includesStr normalized hiddenNormalized \<or> includesStr hiddenNormalized normalized
         then True
         else hiddenNamesLoop normalized rest)"

fun matchLoop :: "string \<Rightarrow> (string \<times> ingredientRecord) list \<Rightarrow> ingredientRecord option" where
  "matchLoop normalized [] = None"
| "matchLoop normalized ((key, data) # rest) =
     (let dbNormalized = normalizeIngredient (rec_name data)
      in if normalized = dbNormalized then Some data
         else if includesStr normalized dbNormalized \<or> includesStr dbNormalized normalized
         then Some data
         else if (case hiddenNames data of
                    None \<Rightarrow> False
                  | Some hs \<Rightarrow> hiddenNamesLoop normalized hs)
         then Some data
         else matchLoop normalized rest)"

definition findIngredientMatch :: "string \<Rightarrow> ingredientRecord option" where
  "findIngredientMatch ingredientName =
     (let normalized = normalizeIngredient ingredientName;
          searchResults = searchIngredients ingredientName
      in case searchResults of
           r # _ \<Rightarrow> Some (ingredient r)
         | [] \<Rightarrow> matchLoop normalized ingredientDatabase)"

section \<open>Unknown-ingredient assessment (ingredientParser.js)\<close>

record assessment =
  a_score :: int
  a_concern :: concern
  a_category :: string
  a_note :: "string option"

definition assessUnknownIngredient :: "string \<Rightarrow> assessment" where
  "assessUnknownIngredient name =
     (let lower = toLowerCase name
      in if isHiddenSugar name
         then \<lparr>a_score = 30, a_concern = Moderate, a_category = ''Hidden Sugar'',
                a_note = Some ''This is a form of added sugar''\<rparr>
         else let msg = checkForMSG name
         in if containsMSG msg
         then \<lparr>a_score = (if certainty msg = Some ''high'' then 50 else 60),
                a_concern = Moderate, a_category = ''Flavor Enhancer'',
                a_note = Some (''May contain MSG ('' @ (case certainty msg of Some c \<Rightarrow> c | None \<Rightarrow> ''null'')
                               @ '' certainty)'')\<rparr>
         else if list_ex (\<lambda>flag. includesStr lower flag)
                   [''artificial'', ''synthetic'', ''hydrogenated'', ''modified'']
         then \<lparr>a_score = 40, a_concern = Moderate, a_category = ''Processed Additive'',
                a_note = None\<rparr>
         else if list_ex (\<lambda>flag. includesStr lower flag)
                   [''flavor'', ''color'', ''dye'', ''preservative'']
         then \<lparr>a_score = 50, a_concern = Moderate, a_category = ''Additive'', a_note = None\<rparr>
         else if list_ex (\<lambda>flag. includesStr lower flag)
                   [''organic'', ''natural'', ''vitamin'', ''mineral'', ''water'', ''salt'', ''spice'']
         then \<lparr>a_score = 80, a_concern = Low, a_category = ''Natural Ingredient'',
                a_note = None\<rparr>
         else \<lparr>a_score = 70, a_concern = Low, a_category = ''Ingredient'', a_note = None\<rparr>)"

section \<open>Scoring pass (ingredientParser.js)\<close>

text \<open>
  The input of \<^verbatim>\<open>parseIngredients\<close> is the extraction result: optional product name,
  brand and raw text (absent is \<open>None\<close>) and the list of ingredient names.
\<close>

record aiResult =
  productName :: "string option"
  brand :: "string option"
  ingredients :: "string list"
  rawText :: "string option"

text \<open>
  One element of the result's ingredient list. The source's fields \<^verbatim>\<open>id\<close>, \<^verbatim>\<open>name\<close>,
  \<^verbatim>\<open>score\<close>, \<^verbatim>\<open>category\<close> and \<^verbatim>\<open>concern\<close> carry the prefix \<open>p_\<close>; the two
  explanatory texts copied from a matched entry are left out, as in the table.
\<close>

record parsedIngredient =
  p_id :: string
  p_name :: string
  p_score :: int
  p_category :: string
  p_concern :: concern
  p_note :: "string option"
  foundInDatabase :: bool

record concernBucket =
  count :: nat
  names :: "string list"

record concernTallies =
  sugar :: concernBucket
  preservatives :: concernBucket
  artificial :: concernBucket

text \<open>
  The profile labels of the source start with a pictograph outside the modelled character
  range; it is left out. The only test on a label is whether it contains the word that
  follows the pictograph.
\<close>

record profileAlert =
  profile :: string
  message :: string

text \<open>
  The result. The source's fields \<^verbatim>\<open>id\<close>, \<^verbatim>\<open>name\<close>, \<^verbatim>\<open>brand\<close>, \<^verbatim>\<open>category\<close>,
  \<^verbatim>\<open>rawText\<close>, \<^verbatim>\<open>ingredients\<close>, \<^verbatim>\<open>concerns\<close> and \<^verbatim>\<open>profileAlerts\<close> carry the
  prefix \<open>r_\<close>.
\<close>

record productResult =
  r_id :: string
  r_name :: string
  r_brand :: string
  r_category :: string
  overallScore :: int
  r_rawText :: string
  r_ingredients :: "parsedIngredient list"
  r_concerns :: concernTallies
  r_profileAlerts :: "profileAlert list"
  scannedAt :: string

text \<open>
  The call reads the platform clock twice: \<^verbatim>\<open>Date.now()\<close> for the identifier and
  \<^verbatim>\<open>new Date().toISOString()\<close> for the time stamp. Both readings are inputs of the
  model.
\<close>

record clock =
  dateNow :: int
  newDateISO :: string

text \<open>The variables the loop over the ingredient names updates.\<close>

record scanState =
  parsedIngredients :: "parsedIngredient list"
  concerns :: concernTallies
  profileAlerts :: "profileAlert list"
  totalScore :: int
  highConcernCount :: nat

text \<open>
  Every update of a bucket in the source is the pair of statements
  \<^verbatim>\<open>bucket.count++; bucket.names.push(name)\<close> (for the sugar, the preservatives and the
  artificial bucket of a matched entry, and for the sugar bucket of an unmatched name).
\<close>

definition bump :: "concernBucket \<Rightarrow> string \<Rightarrow> concernBucket" where
  "bump bucket name = \<lparr>count = count bucket + 1, names = names bucket @ [name]\<rparr>"

text \<open>
  The loop body has two blocks for a matched entry, commented \<^verbatim>\<open>Track concerns\<close> and
  \<^verbatim>\<open>Check for profile alerts\<close>; they are \<open>trackConcerns\<close> and \<open>trackAlerts\<close>
  below. An alert of a profile is pushed unless \<^verbatim>\<open>profileAlerts.find\<close> yields an earlier
  alert whose label contains the word.
\<close>

definition pushAlert :: "string \<Rightarrow> profileAlert \<Rightarrow> profileAlert list \<Rightarrow> profileAlert list" where
  "pushAlert word alert alerts =
     (case find (\<lambda>a. includesStr (profile a) word) alerts of
        None \<Rightarrow> alerts @ [alert]
      | Some existing \<Rightarrow> alerts)"

definition trackConcerns :: "ingredientRecord \<Rightarrow> string \<Rightarrow> concernTallies \<Rightarrow> concernTallies" where
  "trackConcerns match ingredientName cs =
     (let cat = toLowerCase (rec_category match);
          cs1 = (if includesStr cat ''sweetener'' \<or> isHiddenSugar ingredientName
                 then cs\<lparr>sugar := bump (sugar cs) (rec_name match)\<rparr> else cs);
          cs2 = (if includesStr cat ''preservative''
                 then cs1\<lparr>preservatives := bump (preservatives cs1) (rec_name match)\<rparr> else cs1)
      in if includesStr cat ''artificial'' \<or> includesStr cat ''color''
         then cs2\<lparr>artificial := bump (artificial cs2) (rec_name match)\<rparr> else cs2)"

definition trackAlerts :: "ingredientRecord \<Rightarrow> profileAlert list \<Rightarrow> profileAlert list" where
  "trackAlerts match alerts =
     (let a1 = (if kidAlert match
                then pushAlert ''Kids''
                       \<lparr>profile = ''Kids'',
                        message = ''Contains '' @ rec_name match
                                  @ '' - caution advised for children''\<rparr> alerts
                else alerts);
          a2 = (if heartHealthAlert match
                then pushAlert ''Heart''
                       \<lparr>profile = ''Heart Health'',
                        message = ''Contains '' @ rec_name match
                                  @ '' - monitor for heart health''\<rparr> a1
                else a1)
      in if diabeticAlert match
         then pushAlert ''Diabetic''
                \<lparr>profile = ''Diabetic'',
                 message = ''Contains '' @ rec_name match @ '' - watch glycemic impact''\<rparr> a2
         else a2)"

text \<open>The body of the loop, for one ingredient name.\<close>

definition processIngredient :: "scanState \<Rightarrow> string \<Rightarrow> scanState" where
  "processIngredient st ingredientName =
     (let (ingredientData, cs, alerts) =
            (case findIngredientMatch ingredientName of
               Some match \<Rightarrow>
                 (\<lparr>p_id = rec_id match, p_name = rec_name match, p_score = rec_score match,
                   p_category = rec_category match, p_concern = rec_concern match,
                   p_note = None, foundInDatabase = True\<rparr>,
                  trackConcerns match ingredientName (concerns st),
                  trackAlerts match (profileAlerts st))
             | None \<Rightarrow>
                 (let assessment = assessUnknownIngredient ingredientName
                  in (\<lparr>p_id = replaceSpaceRuns ''-'' (normalizeIngredient ingredientName),
                       p_name = ingredientName, p_score = a_score assessment,
                       p_category = a_category assessment, p_concern = a_concern assessment,
                       p_note = a_note assessment, foundInDatabase = False\<rparr>,
                      (if a_category assessment = ''Hidden Sugar''
                       then (concerns st)\<lparr>sugar := bump (sugar (concerns st)) ingredientName\<rparr>
                       else concerns st),
                      profileAlerts st)))
      in \<lparr>parsedIngredients = parsedIngredients st @ [ingredientData],
          concerns = cs,
          profileAlerts = alerts,
          totalScore = totalScore st + p_score ingredientData,
          highConcernCount =
            (if p_concern ingredientData = High then highConcernCount st + 1
             else highConcernCount st)\<rparr>)"

definition initialState :: scanState where
  "initialState =
     \<lparr>parsedIngredients = [],
      concerns = \<lparr>sugar = \<lparr>count = 0, names = []\<rparr>,
                  preservatives = \<lparr>count = 0, names = []\<rparr>,
                  artificial = \<lparr>count = 0, names = []\<rparr>\<rparr>,
      profileAlerts = [], totalScore = 0, highConcernCount = 0\<rparr>"

text \<open>
  \<^verbatim>\<open>Math.round(t / n)\<close> for an integer \<open>t\<close> and a positive count \<open>n\<close>: the nearest
  integer, a half rounded up. The scores are integers between 0 and 100, so the quotient
  is computed here in integer arithmetic.
\<close>

definition roundDiv :: "int \<Rightarrow> nat \<Rightarrow> int" where
  "roundDiv t n = (2 * t + int n) div (2 * int n)"

text \<open>\<^verbatim>\<open>x || d\<close> on an optional string: absent and empty are both falsy.\<close>

definition orElse :: "string option \<Rightarrow> string \<Rightarrow> string" where
  "orElse x d = (case x of None \<Rightarrow> d | Some v \<Rightarrow> if v = [] then d else v)"

fun joinWith :: "string \<Rightarrow> string list \<Rightarrow> string" where
  "joinWith sep [] = []"
| "joinWith sep [x] = x"
| "joinWith sep (x # y # ys) = x @ sep @ joinWith sep (y # ys)"

text \<open>The decimal rendering of an integer in a template string.\<close>

function digitsOf :: "nat \<Rightarrow> string" where
  "digitsOf n =
     (if n < 10 then [char_of (48 + n)] else digitsOf (n div 10) @ [char_of (48 + n mod 10)])"
  by pat_completeness auto
termination
  by (relation "measure (\<lambda>n. n)") auto

definition showInt :: "int \<Rightarrow> string" where
  "showInt i = (if i < 0 then CHR ''-'' # digitsOf (nat (- i)) else digitsOf (nat i))"

definition parseIngredients :: "clock \<Rightarrow> aiResult \<Rightarrow> productResult" where
  "parseIngredients clk aiRes =
     (let st = foldl processIngredient initialState (ingredients aiRes);
          n = length (parsedIngredients st);
          score0 = (if n > 0 then roundDiv (totalScore st) n else 50);
          score1 = max 5 (score0 - int (highConcernCount st) * 8);
          totalConcerns = count (sugar (concerns st)) + count (preservatives (concerns st))
                          + count (artificial (concerns st));
          score2 = (if totalConcerns > 5 then max 5 (score1 - 10) else score1)
      in \<lparr>r_id = ''scan-'' @ showInt (dateNow clk),
          r_name = orElse (productName aiRes) ''Scanned Product'',
          r_brand = orElse (brand aiRes) ''Unknown Brand'',
          r_category = ''Food Product'',
          overallScore = score2,
          r_rawText = orElse (rawText aiRes) (joinWith '', '' (ingredients aiRes)),
          r_ingredients = parsedIngredients st,
          r_concerns = concerns st,
          r_profileAlerts = profileAlerts st,
          scannedAt = newDateISO clk\<rparr>)"


section \<open>Alternative ranker (aiService.js)\<close>

text \<open>
  A catalog entry. The source's fields \<^verbatim>\<open>name\<close>, \<^verbatim>\<open>brand\<close> and \<^verbatim>\<open>score\<close> carry the
  prefix \<open>c_\<close>.
\<close>

record candidate =
  c_name :: string
  c_brand :: string
  c_score :: int
  price :: string
  stores :: "string list"
  highlights :: "string list"

text \<open>
  A returned alternative: the catalog entry spread into a new object, together with the
  position-based identifier (\<open>alt_id\<close> for the source's \<^verbatim>\<open>id\<close>) and the three derived
  fields.
\<close>

record alternative = candidate +
  alt_id :: nat
  improvement :: int
  priceLevel :: string
  budgetPick :: bool

text \<open>The own properties of the catalog object, in the order of the object literal.\<close>

definition CATEGORY_ALTERNATIVES :: "(string \<times> candidate list) list" where
  "CATEGORY_ALTERNATIVES =
    [(''Beverage'',
      [\<lparr>c_name = ''Organic Kombucha'', c_brand = ''GT's'', c_score = 82, price = ''$3.99'',
        stores = [''Whole Foods'', ''Target'', ''Kroger''],
        highlights = [''Probiotics'', ''Low sugar'', ''Organic'']\<rparr>,
       \<lparr>c_name = ''Sparkling Water with Fruit'', c_brand = ''Spindrift'', c_score = 90, price = ''$5.99/8pk'',
        stores = [''Target'', ''Walmart'', ''Costco''],
        highlights = [''Real fruit juice'', ''No sweeteners'', ''Zero calories'']\<rparr>,
       \<lparr>c_name = ''Cold-Pressed Green Juice'', c_brand = ''Suja'', c_score = 78, price = ''$4.49'',
        stores = [''Whole Foods'', ''Target'', ''Kroger''],
        highlights = [''Cold-pressed'', ''No added sugar'', ''Organic'']\<rparr>,
       \<lparr>c_name = ''Coconut Water'', c_brand = ''Harmless Harvest'', c_score = 85, price = ''$4.29'',
        stores = [''Whole Foods'', ''Sprouts'', ''Target''],
        highlights = [''Raw'', ''No added sugar'', ''Electrolytes'']\<rparr>]),
     (''Dairy'',
      [\<lparr>c_name = ''Organic Whole Milk Yogurt'', c_brand = ''Stonyfield'', c_score = 80, price = ''$5.49'',
        stores = [''Target'', ''Kroger'', ''Whole Foods''],
        highlights = [''Organic'', ''Probiotics'', ''No artificial ingredients'']\<rparr>,
       \<lparr>c_name = ''Grass-Fed Whole Milk'', c_brand = ''Organic Valley'', c_score = 85, price = ''$6.99'',
        stores = [''Whole Foods'', ''Kroger'', ''Sprouts''],
        highlights = [''Grass-fed'', ''No hormones'', ''Pasture-raised'']\<rparr>,
       \<lparr>c_name = ''Oat Milk (Unsweetened)'', c_brand = ''Oatly'', c_score = 75, price = ''$4.99'',
        stores = [''Target'', ''Walmart'', ''Whole Foods''],
        highlights = [''Plant-based'', ''No added sugar'', ''Fortified'']\<rparr>]),
     (''Snack'',
      [\<lparr>c_name = ''Organic Veggie Straws'', c_brand = ''Hippeas'', c_score = 72, price = ''$4.29'',
        stores = [''Target'', ''Walmart'', ''Whole Foods''],
        highlights = [''Organic chickpeas'', ''No artificial flavors'', ''Gluten-free'']\<rparr>,
       \<lparr>c_name = ''Mixed Nuts (Unsalted)'', c_brand = ''Planters'', c_score = 88, price = ''$7.99'',
        stores = [''Target'', ''Walmart'', ''Costco''],
        highlights = [''Whole foods'', ''Heart-healthy fats'', ''Protein'']\<rparr>,
       \<lparr>c_name = ''Organic Apple Chips'', c_brand = ''Bare'', c_score = 82, price = ''$3.99'',
        stores = [''Target'', ''Whole Foods'', ''Kroger''],
        highlights = [''Single ingredient'', ''No added sugar'', ''Organic'']\<rparr>]),
     (''Meat'',
      [\<lparr>c_name = ''Uncured Turkey Dogs'', c_brand = ''Applegate'', c_score = 72, price = ''$6.99'',
        stores = [''Target'', ''Whole Foods'', ''Kroger''],
        highlights = [''No nitrites'', ''No artificial ingredients'', ''Organic'']\<rparr>,
       \<lparr>c_name = ''Organic Grass-Fed Beef Franks'', c_brand = ''Organic Prairie'', c_score = 78, price = ''$8.49'',
        stores = [''Whole Foods'', ''Sprouts''],
        highlights = [''Grass-fed'', ''No added sugar'', ''No nitrites'']\<rparr>,
       \<lparr>c_name = ''All Natural Uncured Beef Franks'', c_brand = ''Niman Ranch'', c_score = 70, price = ''$7.49'',
        stores = [''Whole Foods'', ''Safeway'', ''Costco''],
        highlights = [''Humanely raised'', ''No antibiotics'', ''No hormones'']\<rparr>]),
     (''Grain'',
      [\<lparr>c_name = ''Organic Sprouted Bread'', c_brand = ''Ezekiel 4:9'', c_score = 88, price = ''$5.99'',
        stores = [''Whole Foods'', ''Kroger'', ''Sprouts''],
        highlights = [''Sprouted grains'', ''No flour'', ''Complete protein'']\<rparr>,
       \<lparr>c_name = ''Organic Brown Rice'', c_brand = ''Lundberg'', c_score = 92, price = ''$4.99'',
        stores = [''Target'', ''Whole Foods'', ''Kroger''],
        highlights = [''Whole grain'', ''Organic'', ''Single ingredient'']\<rparr>,
       \<lparr>c_name = ''Ancient Grain Pasta'', c_brand = ''Banza'', c_score = 80, price = ''$3.49'',
        stores = [''Target'', ''Walmart'', ''Kroger''],
        highlights = [''Chickpea-based'', ''High protein'', ''Gluten-free'']\<rparr>]),
     (''Condiment'',
      [\<lparr>c_name = ''Organic Yellow Mustard'', c_brand = ''Annie's'', c_score = 85, price = ''$3.49'',
        stores = [''Target'', ''Whole Foods'', ''Kroger''],
        highlights = [''Organic'', ''Simple ingredients'', ''No artificial colors'']\<rparr>,
       \<lparr>c_name = ''Avocado Oil Mayo'', c_brand = ''Primal Kitchen'', c_score = 78, price = ''$8.99'',
        stores = [''Whole Foods'', ''Target'', ''Sprouts''],
        highlights = [''Avocado oil'', ''No soybean oil'', ''No sugar'']\<rparr>,
       \<lparr>c_name = ''Organic Ketchup'', c_brand = ''Annie's'', c_score = 72, price = ''$3.99'',
        stores = [''Target'', ''Kroger'', ''Whole Foods''],
        highlights = [''Organic tomatoes'', ''No HFCS'', ''Non-GMO'']\<rparr>]),
     (''Supplement'',
      [\<lparr>c_name = ''Methylated B-Complex'', c_brand = ''Thorne'', c_score = 92, price = ''$28.00'',
        stores = [''Amazon'', ''Thorne.com'', ''Whole Foods''],
        highlights = [''Bioavailable forms'', ''Third-party tested'', ''No fillers'']\<rparr>,
       \<lparr>c_name = ''Chelated Magnesium Glycinate'', c_brand = ''Pure Encapsulations'', c_score = 90, price = ''$24.00'',
        stores = [''Amazon'', ''PureEncapsulations.com''],
        highlights = [''Chelated form'', ''High absorption'', ''Hypoallergenic'']\<rparr>,
       \<lparr>c_name = ''Whole Food Multivitamin'', c_brand = ''Garden of Life'', c_score = 82, price = ''$32.99'',
        stores = [''Whole Foods'', ''Amazon'', ''Target''],
        highlights = [''Whole food sourced'', ''Probiotics included'', ''Non-GMO'']\<rparr>]),
     (''Baby Food'',
      [\<lparr>c_name = ''Organic Baby Puree'', c_brand = ''Happy Baby'', c_score = 88, price = ''$1.49'',
        stores = [''Target'', ''Walmart'', ''Kroger''],
        highlights = [''Organic'', ''No added sugar'', ''Non-GMO'']\<rparr>,
       \<lparr>c_name = ''Organic Teething Wafers'', c_brand = ''Happy Baby'', c_score = 80, price = ''$3.99'',
        stores = [''Target'', ''Walmart'', ''Whole Foods''],
        highlights = [''Organic rice'', ''No wheat'', ''Gentle ingredients'']\<rparr>]),
     (''Frozen'',
      [\<lparr>c_name = ''Organic Frozen Vegetables'', c_brand = ''Cascadian Farm'', c_score = 92, price = ''$3.49'',
        stores = [''Target'', ''Kroger'', ''Whole Foods''],
        highlights = [''Organic'', ''Flash frozen'', ''No additives'']\<rparr>,
       \<lparr>c_name = ''Cauliflower Crust Pizza'', c_brand = ''Caulipower'', c_score = 68, price = ''$8.99'',
        stores = [''Target'', ''Walmart'', ''Kroger''],
        highlights = [''Cauliflower crust'', ''Gluten-free'', ''Lower carb'']\<rparr>]),
     (''Bakery'',
      [\<lparr>c_name = ''Organic Sourdough Bread'', c_brand = ''Dave's Killer Bread'', c_score = 78, price = ''$5.49'',
        stores = [''Target'', ''Kroger'', ''Walmart''],
        highlights = [''Organic'', ''Whole grains'', ''Non-GMO'']\<rparr>,
       \<lparr>c_name = ''Gluten-Free Seed Crackers'', c_brand = ''Simple Mills'', c_score = 80, price = ''$4.99'',
        stores = [''Target'', ''Whole Foods'', ''Kroger''],
        highlights = [''Almond flour'', ''No grains'', ''Simple ingredients'']\<rparr>]),
     (''Candy'',
      [\<lparr>c_name = ''Dark Chocolate (85%)'', c_brand = ''Hu'', c_score = 75, price = ''$4.99'',
        stores = [''Whole Foods'', ''Target'', ''Sprouts''],
        highlights = [''No refined sugar'', ''Organic cacao'', ''Fair trade'']\<rparr>,
       \<lparr>c_name = ''Fruit Snacks (Real Fruit)'', c_brand = ''That's It'', c_score = 85, price = ''$4.49'',
        stores = [''Target'', ''Walmart'', ''Whole Foods''],
        highlights = [''Only fruit'', ''No added sugar'', ''No preservatives'']\<rparr>]),
     (''Other'',
      [\<lparr>c_name = ''Organic Alternative'', c_brand = ''Various'', c_score = 75, price = ''Varies'',
        stores = [''Whole Foods'', ''Target'', ''Sprouts''],
        highlights = [''Organic'', ''Fewer additives'', ''Cleaner label'']\<rparr>])]"

text \<open>
  \<^verbatim>\<open>CATEGORY_ALTERNATIVES[category]\<close> is a property read on an object literal. A key
  that is not an own property is looked up on \<^verbatim>\<open>Object.prototype\<close>, whose members
  (ECMA-262, properties of the Object prototype object and its annex of legacy
  accessors) are functions or objects, not candidate arrays. Only a key found in neither
  place reads as \<^verbatim>\<open>undefined\<close>.
\<close>

definition objectPrototypeKeys :: "string list" where
  "objectPrototypeKeys =
     [''constructor'', ''hasOwnProperty'', ''isPrototypeOf'', ''propertyIsEnumerable'',
      ''toLocaleString'', ''toString'', ''valueOf'', ''__proto__'',
      ''__defineGetter__'', ''__defineSetter__'', ''__lookupGetter__'', ''__lookupSetter__'']"

datatype property = Candidates "candidate list" | InheritedMember | Undefined

definition getProperty :: "string \<Rightarrow> property" where
  "getProperty key =
     (case map_of CATEGORY_ALTERNATIVES key of
        Some cands \<Rightarrow> Candidates cands
      | None \<Rightarrow> if key \<in> set objectPrototypeKeys then InheritedMember else Undefined)"

text \<open>
  \<^verbatim>\<open>parseFloat\<close> on a string of digits and dots, which is all that the replacement
  \<^verbatim>\<open>replace(/[^0-9.]/g, '')\<close> leaves: the longest prefix that is a decimal literal
  (digits, then optionally a dot and digits), or \<^verbatim>\<open>NaN\<close> (\<open>None\<close>) when that prefix has
  no digit. The value is the exact decimal; the thresholds it is compared with are the
  integers 7 and 4, and every price of the catalog has at most three decimals.
\<close>

definition isDigit :: "char \<Rightarrow> bool" where
  "isDigit c = (let n = (of_char c :: nat) in 48 \<le> n \<and> n \<le> 57)"

definition digitsValue :: "string \<Rightarrow> nat" where
  "digitsValue ds = foldl (\<lambda>a c. 10 * a + (of_char c - 48)) 0 ds"

definition parseFloat :: "string \<Rightarrow> rat option" where
  "parseFloat s =
     (let ip = takeWhile isDigit s;
          rest = dropWhile isDigit s;
          fp = (case rest of
                  [] \<Rightarrow> []
                | c # t \<Rightarrow> if c = CHR ''.'' then takeWhile isDigit t else [])
      in if ip = [] \<and> fp = [] then None
         else Some (of_nat (digitsValue ip) + of_nat (digitsValue fp) / 10 ^ length fp))"

definition priceNumber :: "string \<Rightarrow> rat option" where
  "priceNumber p = parseFloat (filter (\<lambda>c. isDigit c \<or> c = CHR ''.'') p)"

text \<open>A comparison with \<^verbatim>\<open>NaN\<close> is false.\<close>

definition gtNum :: "rat option \<Rightarrow> rat \<Rightarrow> bool" where
  "gtNum x y = (case x of None \<Rightarrow> False | Some v \<Rightarrow> v > y)"

definition leNum :: "rat option \<Rightarrow> rat \<Rightarrow> bool" where
  "leNum x y = (case x of None \<Rightarrow> False | Some v \<Rightarrow> v \<le> y)"

text \<open>
  A JavaScript number is an IEEE double. An integer is a double when its binary expansion
  fits 53 significant bits; the result of an arithmetic operation on integers is the
  exact result rounded to the nearest double, a tie going to the even significand.
  \<open>roundNat\<close> rounds a natural number so: with \<open>n\<close> its length in bits, the number
  stays as it is up to 53 bits, and otherwise loses its \<open>n - 53\<close> low bits.
  The original score that the ranker receives is such a number with an integer value: the
  model is the program at every integer \<open>s\<close> with \<open>toDouble s = s\<close>. A double is below
  \<open>2 ^ 1024\<close> in magnitude and a candidate's score is at most 100, so no difference
  formed here overflows.
\<close>

definition roundNat :: "nat \<Rightarrow> nat" where
  "roundNat x =
     (let n = floorlog 2 x
      in if n \<le> 53 then x
         else let e = n - 53; q = x div 2 ^ e; r = x mod 2 ^ e
              in if 2 * r > 2 ^ e \<or> (2 * r = 2 ^ e \<and> odd q)
                 then (q + 1) * 2 ^ e else q * 2 ^ e)"

definition toDouble :: "int \<Rightarrow> int" where
  "toDouble x = (if x < 0 then - int (roundNat (nat (- x))) else int (roundNat (nat x)))"

text \<open>\<^verbatim>\<open>a - b\<close> on numbers with integer values.\<close>

definition jsSub :: "int \<Rightarrow> int \<Rightarrow> int" where
  "jsSub a b = toDouble (a - b)"

text \<open>The callback of \<^verbatim>\<open>map\<close>, applied to an entry and its index.\<close>

definition decorate :: "int \<Rightarrow> nat \<times> candidate \<Rightarrow> alternative" where
  "decorate originalScore ia =
     (case ia of (index, alt) \<Rightarrow>
        \<lparr>c_name = c_name alt, c_brand = c_brand alt, c_score = c_score alt,
         price = price alt, stores = stores alt, highlights = highlights alt,
         alt_id = index + 1,
         improvement = max 0 (jsSub (c_score alt) originalScore),
         priceLevel = (if gtNum (priceNumber (price alt)) 7 then ''high''
                       else if gtNum (priceNumber (price alt)) 4 then ''moderate''
                       else ''budget''),
         budgetPick = leNum (priceNumber (price alt)) 4\<rparr>)"

text \<open>
  \<^verbatim>\<open>Array.prototype.sort\<close> with a comparison function is a stable sort: an element
  moves in front of another only if the comparison says so. Insertion from the right
  computes it.
\<close>

fun insertBy :: "('a \<Rightarrow> 'a \<Rightarrow> int) \<Rightarrow> 'a \<Rightarrow> 'a list \<Rightarrow> 'a list" where
  "insertBy cmp x [] = [x]"
| "insertBy cmp x (y # ys) = (if cmp x y \<le> 0 then x # y # ys else y # insertBy cmp x ys)"

definition sortBy :: "('a \<Rightarrow> 'a \<Rightarrow> int) \<Rightarrow> 'a list \<Rightarrow> 'a list" where
  "sortBy cmp xs = foldr (insertBy cmp) xs []"

datatype error = TypeError

text \<open>
  \<^verbatim>\<open>CATEGORY_ALTERNATIVES[category] || CATEGORY_ALTERNATIVES['Other']\<close>: only
  \<^verbatim>\<open>undefined\<close> is falsy, an array (also an empty one), a function and an object are
  truthy. Calling \<^verbatim>\<open>.map\<close> on a value that is not an array throws a TypeError.
\<close>

definition getAlternativesForCategory :: "string \<Rightarrow> int \<Rightarrow> error + alternative list" where
  "getAlternativesForCategory category originalScore =
     (let alternatives = (case getProperty category of
                            Undefined \<Rightarrow> getProperty ''Other''
                          | v \<Rightarrow> v)
      in case alternatives of
           Candidates cands \<Rightarrow>
             Inr (sortBy (\<lambda>a b. jsSub (improvement b) (improvement a))
                   (filter (\<lambda>alt. c_score alt > originalScore)
                     (map (decorate originalScore) (enumerate 0 cands))))
         | InheritedMember \<Rightarrow> Inl TypeError
         | Undefined \<Rightarrow> Inl TypeError)"

section \<open>Reference descriptions\<close>

text \<open>
  The definitions of this section are not translations of code. They write down, as
  executable functions, the algorithms that the statements below compare the code with.
\<close>

definition aliases :: "ingredientRecord \<Rightarrow> string list" where
  "aliases r = (case hiddenNames r of None \<Rightarrow> [] | Some hs \<Rightarrow> hs)"

definition firstRecord :: "(ingredientRecord \<Rightarrow> bool) \<Rightarrow> ingredientRecord option" where
  "firstRecord test = find test (map snd ingredientDatabase)"

text \<open>
  The matcher as the specification words it: four full passes over the table in
  insertion order, each taking its first hit, an earlier pass before a later one.
\<close>

definition match_spec :: "string \<Rightarrow> ingredientRecord option" where
  "match_spec rawName =
     (let n = normalizeIngredient rawName
      in case firstRecord (\<lambda>r. includesStr (normalizeIngredient (rec_name r)) n) of
           Some r \<Rightarrow> Some r
         | None \<Rightarrow>
      (case firstRecord (\<lambda>r. normalizeIngredient (rec_name r) = n) of
           Some r \<Rightarrow> Some r
         | None \<Rightarrow>
      (case firstRecord (\<lambda>r. includesStr n (normalizeIngredient (rec_name r))
                              \<or> includesStr (normalizeIngredient (rec_name r)) n) of
           Some r \<Rightarrow> Some r
         | None \<Rightarrow>
       firstRecord (\<lambda>r. list_ex (\<lambda>alias. includesStr n (normalizeIngredient alias)
                                        \<or> includesStr (normalizeIngredient alias) n)
                            (aliases r)))))"

text \<open>
  The matcher as two passes. The first pass tests, without normalization, whether the
  lower-cased name or a lower-cased hidden name of an entry contains the lower-cased,
  trimmed raw name. The second pass tests an entry for equal normalized names, for
  containment either way between the normalized names, or for containment either way
  between the normalized raw name and a normalized hidden name.
\<close>

definition searchTest :: "string \<Rightarrow> ingredientRecord \<Rightarrow> bool" where
  "searchTest q r =
     (includesStr (toLowerCase (rec_name r)) q
      \<or> list_ex (\<lambda>h. includesStr (toLowerCase h) q) (aliases r))"

definition entryTest :: "string \<Rightarrow> ingredientRecord \<Rightarrow> bool" where
  "entryTest n r =
     (n = normalizeIngredient (rec_name r)
      \<or> includesStr n (normalizeIngredient (rec_name r))
      \<or> includesStr (normalizeIngredient (rec_name r)) n
      \<or> list_ex (\<lambda>h. includesStr n (normalizeIngredient h)
                      \<or> includesStr (normalizeIngredient h) n) (aliases r))"

definition match_two_pass :: "string \<Rightarrow> ingredientRecord option" where
  "match_two_pass rawName =
     (case firstRecord (searchTest (trim (toLowerCase rawName))) of
        Some r \<Rightarrow> Some r
      | None \<Rightarrow> firstRecord (entryTest (normalizeIngredient rawName)))"

text \<open>
  The decision table of the unknown-ingredient classifier as the specification lists it:
  rules tried in order on the lower-cased raw name, the first rule whose test holds
  giving the result, and a default.
\<close>

definition containsAny :: "string list \<Rightarrow> string \<Rightarrow> bool" where
  "containsAny keys lowered = list_ex (\<lambda>k. includesStr lowered (toLowerCase k)) keys"

definition decisionTable :: "((string \<Rightarrow> bool) \<times> assessment) list" where
  "decisionTable =
     [(containsAny hiddenSugarNames,
       \<lparr>a_score = 30, a_concern = Moderate, a_category = ''Hidden Sugar'',
        a_note = Some ''This is a form of added sugar''\<rparr>),
      (containsAny (alwaysContainsMSG hiddenMSGNames),
       \<lparr>a_score = 50, a_concern = Moderate, a_category = ''Flavor Enhancer'',
        a_note = Some ''May contain MSG (high certainty)''\<rparr>),
      (containsAny (oftenContainsMSG hiddenMSGNames),
       \<lparr>a_score = 60, a_concern = Moderate, a_category = ''Flavor Enhancer'',
        a_note = Some ''May contain MSG (moderate certainty)''\<rparr>),
      (containsAny [''artificial'', ''synthetic'', ''hydrogenated'', ''modified''],
       \<lparr>a_score = 40, a_concern = Moderate, a_category = ''Processed Additive'',
        a_note = None\<rparr>),
      (containsAny [''flavor'', ''color'', ''dye'', ''preservative''],
       \<lparr>a_score = 50, a_concern = Moderate, a_category = ''Additive'', a_note = None\<rparr>),
      (containsAny [''organic'', ''natural'', ''vitamin'', ''mineral'', ''water'', ''salt'',
                    ''spice''],
       \<lparr>a_score = 80, a_concern = Low, a_category = ''Natural Ingredient'',
        a_note = None\<rparr>)]"

definition classifyUnknown_spec :: "string \<Rightarrow> assessment" where
  "classifyUnknown_spec rawName =
     (case find (\<lambda>rule. fst rule (toLowerCase rawName)) decisionTable of
        Some rule \<Rightarrow> snd rule
      | None \<Rightarrow> \<lparr>a_score = 70, a_concern = Low, a_category = ''Ingredient'',
                   a_note = None\<rparr>)"

text \<open>
  A string is well spaced when its only white space is the blank and no white space
  follows a blank.
\<close>

fun wellSpaced :: "string \<Rightarrow> bool" where
  "wellSpaced [] = True"
| "wellSpaced [c] = (isSpace c \<longrightarrow> c = CHR '' '')"
| "wellSpaced (c # d # s) =
     ((isSpace c \<longrightarrow> c = CHR '' '' \<and> \<not> isSpace d) \<and> wellSpaced (d # s))"

text \<open>
  The candidate bucket of a category: its own list when the catalog has one, the list of
  \<^verbatim>\<open>Other\<close> otherwise.
\<close>

definition bucket :: "string \<Rightarrow> candidate list" where
  "bucket category =
     (case map_of CATEGORY_ALTERNATIVES category of
        Some cands \<Rightarrow> cands
      | None \<Rightarrow> (case map_of CATEGORY_ALTERNATIVES ''Other'' of
                   Some cands \<Rightarrow> cands
                 | None \<Rightarrow> []))"



text \<open>A bucket is balanced when its counter equals the length of its list of names.\<close>

definition balanced :: "concernBucket \<Rightarrow> bool" where
  "balanced b = (count b = length (names b))"

definition allBalanced :: "concernTallies \<Rightarrow> bool" where
  "allBalanced cs = (balanced (sugar cs) \<and> balanced (preservatives cs) \<and> balanced (artificial cs))"

text \<open>The ingredient list of the specification's scoring scenario.\<close>

definition scenario :: "string list" where
  "scenario = [''Sodium Nitrite'', ''High Fructose Corn Syrup'', ''Citric Acid'']"

section \<open>The string primitives\<close>

text \<open>The two recursions compute the prefix and the contiguous-sublist relations.\<close>

lemma startsWith_prefix: "startsWith s t = prefix t s"
  by (induction s t rule: startsWith.induct) auto

lemma includesStr_sublist: "includesStr s t = sublist t s"
proof (induction s)
  case Nil
  show ?case by simp
next
  case (Cons c s)
  then show ?case
    by (cases t) (simp_all add: startsWith_prefix sublist_Cons_right)
qed

section \<open>Normalization is idempotent\<close>

lemma toLowerChar_kept: "isLowerAlnum c \<or> isSpace c \<Longrightarrow> toLowerChar c = c"
  by (auto simp: toLowerChar_def isLowerAlnum_def isSpace_def Let_def)

lemma isSpace_blank: "isSpace CHR '' ''"
  by (simp add: isSpace_def)

lemma wellSpaced_replaceSpaceRuns: "wellSpaced (replaceSpaceRuns '' '' s)"
proof (induction "'' ''" s rule: replaceSpaceRuns.induct)
  case 1
  show ?case by simp
next
  case (2 c s)
  show ?case
  proof (cases "isSpace c")
    case True
    show ?thesis
    proof (cases "dropWhile isSpace s")
      case Nil
      from True show ?thesis by (simp add: Nil)
    next
      case (Cons d t)
      then have "\<not> isSpace d"
        by (metis hd_dropWhile list.distinct(1) list.sel(1))
      with True 2(1) show ?thesis by (simp add: Cons)
    qed
  next
    case False
    with 2(2) show ?thesis
      by (cases s) auto
  qed
qed

lemma replaceSpaceRuns_fixed: "wellSpaced s \<Longrightarrow> replaceSpaceRuns '' '' s = s"
  by (induction s rule: wellSpaced.induct) auto

lemma wellSpaced_append: "wellSpaced (xs @ ys) \<Longrightarrow> wellSpaced xs \<and> wellSpaced ys"
  by (induction xs rule: wellSpaced.induct) (auto split: list.splits, (cases ys; simp)+)

lemma set_replaceSpaceRuns: "set (replaceSpaceRuns r s) \<subseteq> set r \<union> set s"
proof (induction r s rule: replaceSpaceRuns.induct)
  case (1 r)
  show ?case by simp
next
  case (2 r c s)
  have "set (dropWhile isSpace s) \<subseteq> set s"
    by (auto dest: set_dropWhileD)
  with 2 show ?case by auto
qed

lemma trim_end: "dropWhile isSpace s = trim s @ rev (takeWhile isSpace (rev (dropWhile isSpace s)))"
  unfolding trim_def by (metis rev_append rev_rev_ident takeWhile_dropWhile_id)

lemma trim_sandwich: "\<exists>pre post. s = pre @ trim s @ post"
proof -
  have "s = takeWhile isSpace s @ dropWhile isSpace s" by simp
  with trim_end [of s] show ?thesis by metis
qed

lemma trim_fixed: "trim (trim s) = trim s"
proof -
  let ?y = "dropWhile isSpace s"
  have "dropWhile isSpace (trim s) = trim s"
  proof (cases "trim s")
    case Nil
    then show ?thesis by simp
  next
    case (Cons c t)
    with trim_end [of s] have "hd ?y = c" and "?y \<noteq> []"
      by (metis hd_append2 list.sel(1) list.distinct(1),
          metis append_is_Nil_conv list.distinct(1))
    then have "\<not> isSpace c" by (metis hd_dropWhile)
    with Cons show ?thesis by simp
  qed
  then show ?thesis
    by (simp add: trim_def)
qed

lemma normalizeIngredient_chars:
  "set (normalizeIngredient s) \<subseteq> {c. isLowerAlnum c \<or> isSpace c}"
proof -
  let ?f = "filter (\<lambda>c. isLowerAlnum c \<or> isSpace c) (toLowerCase s)"
  obtain pre post where "replaceSpaceRuns '' '' ?f = pre @ trim (replaceSpaceRuns '' '' ?f) @ post"
    using trim_sandwich by blast
  then have "set (normalizeIngredient s) \<subseteq> set (replaceSpaceRuns '' '' ?f)"
    unfolding normalizeIngredient_def by (metis Un_upper1 Un_upper2 set_append subset_trans)
  also have "\<dots> \<subseteq> set '' '' \<union> set ?f" by (rule set_replaceSpaceRuns)
  also have "\<dots> \<subseteq> {c. isLowerAlnum c \<or> isSpace c}"
    using isSpace_blank by auto
  finally show ?thesis .
qed

lemma normalizeIngredient_wellSpaced: "wellSpaced (normalizeIngredient s)"
proof -
  let ?u = "replaceSpaceRuns '' '' (filter (\<lambda>c. isLowerAlnum c \<or> isSpace c) (toLowerCase s))"
  obtain pre post where "?u = pre @ trim ?u @ post"
    using trim_sandwich by blast
  moreover have "wellSpaced ?u" by (rule wellSpaced_replaceSpaceRuns)
  ultimately have "wellSpaced (trim ?u)"
    by (metis wellSpaced_append)
  then show ?thesis by (simp add: normalizeIngredient_def)
qed

text \<open>
  Claim C8. \<open>normalizeIngredient\<close> is a total function on strings and is idempotent:
  normalizing a normalized name changes nothing. (Totality is the definition itself: a
  composition of total functions, with the termination of \<open>replaceSpaceRuns\<close> proved
  above.)
\<close>

theorem normalizeIngredient_idempotent:
  "normalizeIngredient (normalizeIngredient s) = normalizeIngredient s"
proof -
  let ?t = "normalizeIngredient s"
  have kept: "\<forall>c \<in> set ?t. isLowerAlnum c \<or> isSpace c"
    using normalizeIngredient_chars [of s] by auto
  then have lower: "toLowerCase ?t = ?t"
    unfolding toLowerCase_def by (simp add: map_idI toLowerChar_kept)
  from kept have strip: "filter (\<lambda>c. isLowerAlnum c \<or> isSpace c) ?t = ?t"
    by simp
  have runs: "replaceSpaceRuns '' '' ?t = ?t"
    by (rule replaceSpaceRuns_fixed) (rule normalizeIngredient_wellSpaced)
  have "trim ?t = ?t"
    by (simp add: normalizeIngredient_def trim_fixed)
  with lower strip runs show ?thesis
    by (simp add: normalizeIngredient_def [of ?t])
qed

section \<open>The scoring pass: counters, floor and clock\<close>

lemma balanced_bump: "balanced b \<Longrightarrow> balanced (bump b name)"
  by (simp add: balanced_def bump_def)

lemma allBalanced_trackConcerns:
  "allBalanced cs \<Longrightarrow> allBalanced (trackConcerns match ingredientName cs)"
  by (simp add: allBalanced_def trackConcerns_def Let_def balanced_bump)

lemma allBalanced_processIngredient:
  assumes "allBalanced (concerns st)"
  shows "allBalanced (concerns (processIngredient st ingredientName))"
proof (cases "findIngredientMatch ingredientName")
  case None
  with assms show ?thesis
    by (simp add: processIngredient_def Let_def allBalanced_def balanced_bump)
next
  case (Some match)
  with assms show ?thesis
    by (simp add: processIngredient_def Let_def allBalanced_trackConcerns)
qed

lemma allBalanced_loop:
  "allBalanced (concerns st) \<Longrightarrow> allBalanced (concerns (foldl processIngredient st xs))"
  by (induction xs arbitrary: st) (simp_all add: allBalanced_processIngredient)

lemma allBalanced_initialState: "allBalanced (concerns initialState)"
  by (simp add: initialState_def allBalanced_def balanced_def)

lemma r_concerns_parseIngredients:
  "r_concerns (parseIngredients clk aiRes)
     = concerns (foldl processIngredient initialState (ingredients aiRes))"
  by (simp add: parseIngredients_def Let_def)

text \<open>
  Claim C9. For every list of ingredient names, in the result of \<open>parseIngredients\<close>
  each of the three concern buckets (sugar, preservatives, artificial) has a counter equal
  to the length of its list of names.
\<close>

theorem parseIngredients_counts_match_names:
  "count (sugar (r_concerns (parseIngredients clk aiRes)))
     = length (names (sugar (r_concerns (parseIngredients clk aiRes))))
   \<and> count (preservatives (r_concerns (parseIngredients clk aiRes)))
     = length (names (preservatives (r_concerns (parseIngredients clk aiRes))))
   \<and> count (artificial (r_concerns (parseIngredients clk aiRes)))
     = length (names (artificial (r_concerns (parseIngredients clk aiRes))))"
proof -
  have "allBalanced (r_concerns (parseIngredients clk aiRes))"
    unfolding r_concerns_parseIngredients
    by (rule allBalanced_loop) (rule allBalanced_initialState)
  then show ?thesis
    by (simp add: allBalanced_def balanced_def)
qed

text \<open>
  Claim C4. For every list of ingredient names the overall score of the result is at
  least 5; for the empty list it is the base 50.
\<close>

theorem parseIngredients_score_floor:
  "5 \<le> overallScore (parseIngredients clk aiRes)
   \<and> overallScore (parseIngredients clk (aiRes\<lparr>ingredients := []\<rparr>)) = 50"
  by (simp add: parseIngredients_def Let_def initialState_def)













section \<open>The alternative ranker\<close>

text \<open>Rounding to a double is exact up to \<open>2 ^ 53\<close> and keeps the sign.\<close>

lemma floorlog_eqI: "2 ^ (w - 1) \<le> x \<Longrightarrow> x < 2 ^ w \<Longrightarrow> 0 < w \<Longrightarrow> floorlog 2 x = w"
  by (meson floorlog_geI floorlog_leI le_antisym one_less_numeral_iff semiring_norm(76) zero_le)

lemma roundNat_small: "x < 2 ^ 53 \<Longrightarrow> roundNat x = x"
  by (simp add: roundNat_def Let_def floorlog_le_iff)

lemma roundNat_exact: "x \<le> 2 ^ 53 \<Longrightarrow> roundNat x = x"
proof (cases "x < 2 ^ 53")
  case True
  then show ?thesis by (rule roundNat_small)
next
  case False
  assume "x \<le> 2 ^ 53"
  with False have x: "x = 2 ^ 53" by simp
  have "floorlog 2 ((2::nat) ^ 53) = 54"
    by (rule floorlog_eqI) simp_all
  then show ?thesis
    by (simp add: x roundNat_def Let_def)
qed

lemma roundNat_pos: "0 < x \<Longrightarrow> 0 < roundNat x"
proof -
  assume x: "0 < x"
  let ?n = "floorlog 2 x"
  show ?thesis
  proof (cases "?n \<le> 53")
    case True
    with x show ?thesis by (simp add: roundNat_def Let_def)
  next
    case False
    let ?e = "?n - 53"
    have low: "2 ^ (?n - 1) \<le> x"
      using floorlog_bounds [of x 2] x by simp
    have "(2::nat) ^ ?e \<le> 2 ^ (?n - 1)"
      by (rule power_increasing) simp_all
    from this low have "2 ^ ?e \<le> x" by (rule order_trans)
    then have "0 < x div 2 ^ ?e"
      by (simp add: div_greater_zero_iff)
    with False show ?thesis
      by (simp add: roundNat_def Let_def)
  qed
qed

lemma toDouble_exact: "\<bar>x\<bar> \<le> 2 ^ 53 \<Longrightarrow> toDouble x = x"
proof -
  assume a: "\<bar>x\<bar> \<le> 2 ^ 53"
  have "nat \<bar>x\<bar> \<le> 2 ^ 53"
    using a by (simp add: nat_le_iff)
  then have "roundNat (nat \<bar>x\<bar>) = nat \<bar>x\<bar>" by (rule roundNat_exact)
  then show ?thesis
    by (auto simp: toDouble_def abs_if split: if_splits)
qed

lemma toDouble_sign: "(toDouble x \<le> 0) = (x \<le> 0)"
proof (cases "0 < x")
  case True
  then have "0 < roundNat (nat x)" by (simp add: roundNat_pos)
  with True show ?thesis by (simp add: toDouble_def)
next
  case False
  then show ?thesis by (auto simp: toDouble_def roundNat_small)
qed

lemma jsSub_le_0: "(jsSub a b \<le> 0) = (a \<le> b)"
  by (simp add: jsSub_def toDouble_sign)

lemma set_insertBy: "set (insertBy cmp x ys) = insert x (set ys)"
  by (induction ys) auto

lemma set_sortBy: "set (sortBy cmp xs) = set xs"
  by (induction xs) (simp_all add: sortBy_def set_insertBy)

lemma sorted_insertBy:
  "sorted_wrt (\<lambda>a b. improvement a \<ge> improvement b) ys \<Longrightarrow>
   sorted_wrt (\<lambda>a b. improvement a \<ge> improvement b)
     (insertBy (\<lambda>a b. jsSub (improvement b) (improvement a)) x ys)"
  by (induction ys) (auto simp: set_insertBy jsSub_le_0)

lemma sorted_sortBy:
  "sorted_wrt (\<lambda>a b. improvement a \<ge> improvement b)
     (sortBy (\<lambda>a b. jsSub (improvement b) (improvement a)) xs)"
  by (induction xs) (simp_all add: sortBy_def sorted_insertBy)

text \<open>
  Stability: the new element only passes elements of strictly greater improvement, so the
  elements of any one improvement keep their order.
\<close>

lemma filter_insertBy:
  "filter (\<lambda>a. improvement a = k) (insertBy (\<lambda>a b. jsSub (improvement b) (improvement a)) x ys)
     = (if improvement x = k then x # filter (\<lambda>a. improvement a = k) ys
        else filter (\<lambda>a. improvement a = k) ys)"
  by (induction ys) (auto simp: jsSub_le_0)

lemma filter_sortBy:
  "filter (\<lambda>a. improvement a = k) (sortBy (\<lambda>a b. jsSub (improvement b) (improvement a)) xs)
     = filter (\<lambda>a. improvement a = k) xs"
  by (induction xs) (simp_all add: sortBy_def filter_insertBy)

lemma other_bucket:
  "map_of CATEGORY_ALTERNATIVES ''Other''
     = Some [\<lparr>c_name = ''Organic Alternative'', c_brand = ''Various'', c_score = 75,
              price = ''Varies'', stores = [''Whole Foods'', ''Target'', ''Sprouts''],
              highlights = [''Organic'', ''Fewer additives'', ''Cleaner label'']\<rparr>]"
  by (simp add: CATEGORY_ALTERNATIVES_def)

text \<open>Whenever the ranker returns, it has ranked the bucket of the category.\<close>

lemma getAlternatives_returns:
  assumes "getAlternativesForCategory category s = Inr alts"
  shows "alts = sortBy (\<lambda>a b. jsSub (improvement b) (improvement a))
                   (filter (\<lambda>alt. c_score alt > s)
                     (map (decorate s) (enumerate 0 (bucket category))))"
  using assms
  by (auto simp: getAlternativesForCategory_def getProperty_def bucket_def other_bucket Let_def
           split: option.splits if_splits)

text \<open>Category lock: every returned alternative decorates an entry of that bucket.\<close>

lemma alternatives_from_bucket:
  assumes "getAlternativesForCategory category s = Inr alts" and "a \<in> set alts"
  shows "\<exists>i < length (bucket category). a = decorate s (i, bucket category ! i)"
proof -
  from assms have "a \<in> set (map (decorate s) (enumerate 0 (bucket category)))"
    by (auto simp: getAlternatives_returns [OF assms(1)] set_sortBy)
  then obtain i c where "(i, c) \<in> set (enumerate 0 (bucket category))"
    and a: "a = decorate s (i, c)"
    by auto
  then have "i < length (bucket category)" and "c = bucket category ! i"
    by (simp_all add: in_set_enumerate_eq)
  with a show ?thesis by blast
qed

text \<open>It returns for every category that is not a member of the object prototype.\<close>

lemma getAlternatives_total_outside_prototype:
  assumes "category \<notin> set objectPrototypeKeys"
  shows "\<exists>alts. getAlternativesForCategory category s = Inr alts"
  using assms
  by (auto simp: getAlternativesForCategory_def getProperty_def other_bucket Let_def
           split: option.splits)

lemma jsSub_exact: "\<bar>a - b\<bar> \<le> 2 ^ 53 \<Longrightarrow> jsSub a b = a - b"
  by (simp add: jsSub_def toDouble_exact)

text \<open>Every score of the catalog lies between 0 and 100.\<close>

lemma catalog_scores:
  "list_all (\<lambda>entry. list_all (\<lambda>c. 0 \<le> c_score c \<and> c_score c \<le> 100) (snd entry))
     CATEGORY_ALTERNATIVES"
  by (simp add: CATEGORY_ALTERNATIVES_def)

lemma bucket_scores:
  assumes "c \<in> set (bucket category)"
  shows "0 \<le> c_score c \<and> c_score c \<le> 100"
proof -
  have known: "\<And>key cands. map_of CATEGORY_ALTERNATIVES key = Some cands \<Longrightarrow> c \<in> set cands
                 \<Longrightarrow> 0 \<le> c_score c \<and> c_score c \<le> 100"
  proof -
    fix key cands
    assume "map_of CATEGORY_ALTERNATIVES key = Some cands" and c: "c \<in> set cands"
    then have "(key, cands) \<in> set CATEGORY_ALTERNATIVES"
      by (simp add: map_of_SomeD)
    with catalog_scores have "list_all (\<lambda>c. 0 \<le> c_score c \<and> c_score c \<le> 100) cands"
      by (auto simp: list_all_iff)
    with c show "0 \<le> c_score c \<and> c_score c \<le> 100"
      by (simp add: list_all_iff)
  qed
  show ?thesis
  proof (cases "map_of CATEGORY_ALTERNATIVES category")
    case (Some cands)
    with assms known show ?thesis by (simp add: bucket_def)
  next
    case None
    with assms have "c \<in> set (case map_of CATEGORY_ALTERNATIVES ''Other'' of
                               Some cands \<Rightarrow> cands | None \<Rightarrow> [])"
      by (simp add: bucket_def)
    with known [of "''Other''"] show ?thesis
      by (cases "map_of CATEGORY_ALTERNATIVES ''Other''") simp_all
  qed
qed

text \<open>The ranking of the beverages against the original score \<open>- 2 ^ 60\<close>.\<close>

lemma floorlog_61: "2 ^ 60 \<le> x \<Longrightarrow> x < 2 ^ 61 \<Longrightarrow> floorlog 2 x = 61"
  by (rule floorlog_eqI) simp_all

lemma jsSub_huge:
  "jsSub 82 (- (2 ^ 60)) = 2 ^ 60"
  "jsSub 90 (- (2 ^ 60)) = 2 ^ 60"
  "jsSub 78 (- (2 ^ 60)) = 2 ^ 60"
  "jsSub 85 (- (2 ^ 60)) = 2 ^ 60"
  "jsSub (2 ^ 60) (2 ^ 60) = 0"
  "toDouble (- (2 ^ 60)) = - (2 ^ 60)"
  by (simp_all add: jsSub_def toDouble_def roundNat_def floorlog_61 Let_def)

lemma beverage_huge:
  "\<exists>a b c d. getAlternativesForCategory ''Beverage'' (- (2 ^ 60)) = Inr [a, b, c, d]
     \<and> map alt_id [a, b, c, d] = [1, 2, 3, 4]
     \<and> map c_score [a, b, c, d] = [82, 90, 78, 85]
     \<and> map improvement [a, b, c, d] = [2 ^ 60, 2 ^ 60, 2 ^ 60, 2 ^ 60]"
  using jsSub_huge
  by (simp add: getAlternativesForCategory_def getProperty_def CATEGORY_ALTERNATIVES_def
        enumerate_eq_zip decorate_def sortBy_def upt_rec)

lemma supplement_40:
  "\<exists>a b c. getAlternativesForCategory ''Supplement'' 40 = Inr [a, b, c]"
  by (simp add: getAlternativesForCategory_def getProperty_def CATEGORY_ALTERNATIVES_def
        enumerate_eq_zip decorate_def sortBy_def upt_rec jsSub_le_0)

text \<open>
  Claim C6, as stated: every returned alternative carries
  \<open>improvement = max 0 (score - originalScore)\<close>. The subtraction is one of doubles. For
  the beverages and the original score \<open>- 2 ^ 60\<close> every difference \<open>2 ^ 60 + score\<close>
  rounds to \<open>2 ^ 60\<close>: the first alternative (score 82) carries \<open>2 ^ 60\<close>, and the
  four alternatives, now tied, come back in the order of the catalog.
\<close>

theorem alternatives_exact_improvement_counterexample:
  "map alt_id (projr (getAlternativesForCategory ''Beverage'' (- (2 ^ 60)))) = [1, 2, 3, 4]
   \<and> map c_score (projr (getAlternativesForCategory ''Beverage'' (- (2 ^ 60))))
       = [82, 90, 78, 85]
   \<and> map improvement (projr (getAlternativesForCategory ''Beverage'' (- (2 ^ 60))))
       = [2 ^ 60, 2 ^ 60, 2 ^ 60, 2 ^ 60]
   \<and> toDouble (- (2 ^ 60)) = - (2 ^ 60)
   \<and> (2::int) ^ 60 \<noteq> max 0 (82 - (- (2 ^ 60)))"
  using beverage_huge jsSub_huge(6) by (elim exE conjE) simp

text \<open>
  Claim C6, amended. For every category and integer original score, every returned
  alternative has a score strictly greater than the original score and carries
  \<open>improvement = max 0 d\<close>, where \<open>d\<close> is the double nearest to
  \<open>score - originalScore\<close>; this is the exact difference whenever the original score is
  at most \<open>2 ^ 53 - 100\<close> in magnitude. The returned list is in descending order of
  improvement, and the alternatives of any one improvement stand in the order of the
  catalog (the sort is stable).
\<close>

theorem alternatives_improve_sorted_stable:
  assumes "getAlternativesForCategory category originalScore = Inr alts"
  shows "(\<forall>a \<in> set alts. c_score a > originalScore
              \<and> improvement a = max 0 (toDouble (c_score a - originalScore))
              \<and> (\<bar>originalScore\<bar> \<le> 2 ^ 53 - 100
                   \<longrightarrow> improvement a = max 0 (c_score a - originalScore)))
       \<and> sorted_wrt (\<lambda>a b. improvement a \<ge> improvement b) alts
       \<and> (\<forall>k. filter (\<lambda>a. improvement a = k) alts
              = filter (\<lambda>a. improvement a = k)
                  (filter (\<lambda>a. c_score a > originalScore)
                    (map (decorate originalScore) (enumerate 0 (bucket category)))))"
proof -
  let ?ds = "map (decorate originalScore) (enumerate 0 (bucket category))"
  have alts: "alts = sortBy (\<lambda>a b. jsSub (improvement b) (improvement a))
                       (filter (\<lambda>a. c_score a > originalScore) ?ds)"
    using assms by (rule getAlternatives_returns)
  have rounded: "\<forall>a \<in> set ?ds. improvement a = max 0 (toDouble (c_score a - originalScore))"
    by (clarsimp simp: decorate_def jsSub_def)
  have exact: "\<forall>a \<in> set ?ds. \<bar>originalScore\<bar> \<le> 2 ^ 53 - 100
                 \<longrightarrow> improvement a = max 0 (c_score a - originalScore)"
  proof (intro ballI impI)
    fix a
    assume a: "a \<in> set ?ds" and small: "\<bar>originalScore\<bar> \<le> 2 ^ 53 - 100"
    from a obtain i c where "(i, c) \<in> set (enumerate 0 (bucket category))"
      and dec: "a = decorate originalScore (i, c)"
      by auto
    then have "c \<in> set (bucket category)"
      by (auto simp: in_set_enumerate_eq)
    then have "0 \<le> c_score c \<and> c_score c \<le> 100" by (rule bucket_scores)
    with small have "\<bar>c_score c - originalScore\<bar> \<le> 2 ^ 53"
      by (auto simp: abs_le_iff)
    then have "jsSub (c_score c) originalScore = c_score c - originalScore"
      by (rule jsSub_exact)
    then show "improvement a = max 0 (c_score a - originalScore)"
      by (simp add: dec decorate_def)
  qed
  from rounded exact
  have "\<forall>a \<in> set alts. c_score a > originalScore
                \<and> improvement a = max 0 (toDouble (c_score a - originalScore))
                \<and> (\<bar>originalScore\<bar> \<le> 2 ^ 53 - 100
                     \<longrightarrow> improvement a = max 0 (c_score a - originalScore))"
    unfolding alts set_sortBy by (simp only: set_filter) blast
  moreover have "sorted_wrt (\<lambda>a b. improvement a \<ge> improvement b) alts"
    unfolding alts by (rule sorted_sortBy)
  moreover have "\<forall>k. filter (\<lambda>a. improvement a = k) alts
              = filter (\<lambda>a. improvement a = k)
                  (filter (\<lambda>a. c_score a > originalScore) ?ds)"
    unfolding alts by (simp only: filter_sortBy) simp
  ultimately show ?thesis by blast
qed

theorem alternatives_improve_sorted_stable_witness:
  "\<exists>alts. getAlternativesForCategory ''Supplement'' 40 = Inr alts
      \<and> length alts = 3
      \<and> list_all (\<lambda>a. c_score a > 40 \<and> improvement a = max 0 (c_score a - 40)) alts
      \<and> sorted_wrt (\<lambda>a b. improvement a \<ge> improvement b) alts"
proof -
  obtain a b c where run: "getAlternativesForCategory ''Supplement'' 40 = Inr [a, b, c]"
    using supplement_40 by blast
  note ranked = alternatives_improve_sorted_stable [OF run]
  have small: "\<bar>40::int\<bar> \<le> 2 ^ 53 - 100" by simp
  have "list_all (\<lambda>a. c_score a > 40 \<and> improvement a = max 0 (c_score a - 40)) [a, b, c]"
    unfolding list_all_iff using ranked small by blast
  moreover have "sorted_wrt (\<lambda>a b. improvement a \<ge> improvement b) [a, b, c]"
    using ranked by blast
  moreover have "length [a, b, c] = 3" by simp
  ultimately show ?thesis using run by blast
qed

text \<open>
  Claim C7 says that the ranker returns for every category string, falling back to the
  bucket of \<^verbatim>\<open>Other\<close> for an unrecognized one. The category \<^verbatim>\<open>constructor\<close> is not
  a key of the catalog, but the property read finds the inherited member of that name,
  which is truthy: the fallback is not taken and the call of \<^verbatim>\<open>.map\<close> throws.
\<close>

theorem alternatives_constructor_throws:
  "getAlternativesForCategory ''constructor'' originalScore = Inl TypeError"
  by (simp add: getAlternativesForCategory_def getProperty_def CATEGORY_ALTERNATIVES_def
        objectPrototypeKeys_def)

lemma priceNumber_Varies: "priceNumber ''Varies'' = None"
  by (simp add: priceNumber_def parseFloat_def isDigit_def)

text \<open>
  Claim C10. A price level of \<^verbatim>\<open>budget\<close> does not imply a budget pick. For the category
  \<^verbatim>\<open>Other\<close>, and for every category that falls back to it, an original score below 75
  returns the single candidate of that bucket, whose price \<^verbatim>\<open>Varies\<close> has no digits: its
  numeric parse is no number, so both greater-than tests fail (price level \<^verbatim>\<open>budget\<close>)
  and the test \<^verbatim>\<open><= 4\<close> fails too (no budget pick).
\<close>

theorem other_bucket_budget_not_budgetPick:
  assumes "originalScore < 75"
    and "category = ''Other''
         \<or> (category \<notin> set (map fst CATEGORY_ALTERNATIVES)
            \<and> category \<notin> set objectPrototypeKeys)"
  shows "\<exists>a. getAlternativesForCategory category originalScore = Inr [a]
           \<and> price a = ''Varies'' \<and> priceNumber (price a) = None
           \<and> priceLevel a = ''budget'' \<and> budgetPick a = False"
proof -
  have "getProperty category = Undefined \<or> category = ''Other''"
  proof (cases "category = ''Other''")
    case True
    then show ?thesis by simp
  next
    case False
    with assms(2) have "map_of CATEGORY_ALTERNATIVES category = None"
      and "category \<notin> set objectPrototypeKeys"
      by (simp_all add: map_of_eq_None_iff)
    then show ?thesis by (simp add: getProperty_def)
  qed
  moreover have other: "getProperty ''Other'' = Candidates (bucket ''Other'')"
    by (simp add: getProperty_def bucket_def other_bucket)
  ultimately have "(case getProperty category of Undefined \<Rightarrow> getProperty ''Other'' | v \<Rightarrow> v)
                     = Candidates (bucket ''Other'')"
    by auto
  then have "getAlternativesForCategory category originalScore
               = Inr (sortBy (\<lambda>a b. jsSub (improvement b) (improvement a))
                       (filter (\<lambda>alt. c_score alt > originalScore)
                         (map (decorate originalScore) (enumerate 0 (bucket ''Other'')))))"
    by (simp add: getAlternativesForCategory_def)
  with assms(1) show ?thesis
    by (simp add: bucket_def other_bucket decorate_def sortBy_def priceNumber_Varies
          gtNum_def leNum_def)
qed

theorem other_bucket_budget_not_budgetPick_witness:
  "\<exists>a. getAlternativesForCategory ''Cosmetics'' 40 = Inr [a]
      \<and> priceLevel a = ''budget'' \<and> budgetPick a = False"
proof -
  have unknown: "''Cosmetics'' = ''Other''
         \<or> (''Cosmetics'' \<notin> set (map fst CATEGORY_ALTERNATIVES)
            \<and> ''Cosmetics'' \<notin> set objectPrototypeKeys)"
    by (simp add: CATEGORY_ALTERNATIVES_def objectPrototypeKeys_def)
  have "(40::int) < 75" by simp
  from other_bucket_budget_not_budgetPick [OF this unknown] show ?thesis by blast
qed

section \<open>Evaluation of the string functions on literals\<close>

text \<open>
  The character functions on the printable ASCII characters, one equation each, so that
  the simplifier evaluates a string function on a literal in one step per character.
\<close>

lemma toLowerChar_ascii:
  "toLowerChar (CHR '' '') = CHR '' ''"
  "toLowerChar (CHR ''!'') = CHR ''!''"
  "toLowerChar (CHR 0x22) = CHR 0x22"
  "toLowerChar (CHR ''#'') = CHR ''#''"
  "toLowerChar (CHR ''$'') = CHR ''$''"
  "toLowerChar (CHR ''%'') = CHR ''%''"
  "toLowerChar (CHR ''&'') = CHR ''&''"
  "toLowerChar (CHR 0x27) = CHR 0x27"
  "toLowerChar (CHR ''('') = CHR ''(''"
  "toLowerChar (CHR '')'') = CHR '')''"
  "toLowerChar (CHR ''*'') = CHR ''*''"
  "toLowerChar (CHR ''+'') = CHR ''+''"
  "toLowerChar (CHR '','') = CHR '',''"
  "toLowerChar (CHR ''-'') = CHR ''-''"
  "toLowerChar (CHR ''.'') = CHR ''.''"
  "toLowerChar (CHR ''/'') = CHR ''/''"
  "toLowerChar (CHR ''0'') = CHR ''0''"
  "toLowerChar (CHR ''1'') = CHR ''1''"
  "toLowerChar (CHR ''2'') = CHR ''2''"
  "toLowerChar (CHR ''3'') = CHR ''3''"
  "toLowerChar (CHR ''4'') = CHR ''4''"
  "toLowerChar (CHR ''5'') = CHR ''5''"
  "toLowerChar (CHR ''6'') = CHR ''6''"
  "toLowerChar (CHR ''7'') = CHR ''7''"
  "toLowerChar (CHR ''8'') = CHR ''8''"
  "toLowerChar (CHR ''9'') = CHR ''9''"
  "toLowerChar (CHR '':'') = CHR '':''"
  "toLowerChar (CHR '';'') = CHR '';''"
  "toLowerChar (CHR ''<'') = CHR ''<''"
  "toLowerChar (CHR ''='') = CHR ''=''"
  "toLowerChar (CHR ''>'') = CHR ''>''"
  "toLowerChar (CHR ''?'') = CHR ''?''"
  "toLowerChar (CHR ''@'') = CHR ''@''"
  "toLowerChar (CHR ''A'') = CHR ''a''"
  "toLowerChar (CHR ''B'') = CHR ''b''"
  "toLowerChar (CHR ''C'') = CHR ''c''"
  "toLowerChar (CHR ''D'') = CHR ''d''"
  "toLowerChar (CHR ''E'') = CHR ''e''"
  "toLowerChar (CHR ''F'') = CHR ''f''"
  "toLowerChar (CHR ''G'') = CHR ''g''"
  "toLowerChar (CHR ''H'') = CHR ''h''"
  "toLowerChar (CHR ''I'') = CHR ''i''"
  "toLowerChar (CHR ''J'') = CHR ''j''"
  "toLowerChar (CHR ''K'') = CHR ''k''"
  "toLowerChar (CHR ''L'') = CHR ''l''"
  "toLowerChar (CHR ''M'') = CHR ''m''"
  "toLowerChar (CHR ''N'') = CHR ''n''"
  "toLowerChar (CHR ''O'') = CHR ''o''"
  "toLowerChar (CHR ''P'') = CHR ''p''"
  "toLowerChar (CHR ''Q'') = CHR ''q''"
  "toLowerChar (CHR ''R'') = CHR ''r''"
  "toLowerChar (CHR ''S'') = CHR ''s''"
  "toLowerChar (CHR ''T'') = CHR ''t''"
  "toLowerChar (CHR ''U'') = CHR ''u''"
  "toLowerChar (CHR ''V'') = CHR ''v''"
  "toLowerChar (CHR ''W'') = CHR ''w''"
  "toLowerChar (CHR ''X'') = CHR ''x''"
  "toLowerChar (CHR ''Y'') = CHR ''y''"
  "toLowerChar (CHR ''Z'') = CHR ''z''"
  "toLowerChar (CHR ''['') = CHR ''[''"
  "toLowerChar (CHR 0x5C) = CHR 0x5C"
  "toLowerChar (CHR '']'') = CHR '']''"
  "toLowerChar (CHR ''^'') = CHR ''^''"
  "toLowerChar (CHR ''_'') = CHR ''_''"
  "toLowerChar (CHR ''`'') = CHR ''`''"
  "toLowerChar (CHR ''a'') = CHR ''a''"
  "toLowerChar (CHR ''b'') = CHR ''b''"
  "toLowerChar (CHR ''c'') = CHR ''c''"
  "toLowerChar (CHR ''d'') = CHR ''d''"
  "toLowerChar (CHR ''e'') = CHR ''e''"
  "toLowerChar (CHR ''f'') = CHR ''f''"
  "toLowerChar (CHR ''g'') = CHR ''g''"
  "toLowerChar (CHR ''h'') = CHR ''h''"
  "toLowerChar (CHR ''i'') = CHR ''i''"
  "toLowerChar (CHR ''j'') = CHR ''j''"
  "toLowerChar (CHR ''k'') = CHR ''k''"
  "toLowerChar (CHR ''l'') = CHR ''l''"
  "toLowerChar (CHR ''m'') = CHR ''m''"
  "toLowerChar (CHR ''n'') = CHR ''n''"
  "toLowerChar (CHR ''o'') = CHR ''o''"
  "toLowerChar (CHR ''p'') = CHR ''p''"
  "toLowerChar (CHR ''q'') = CHR ''q''"
  "toLowerChar (CHR ''r'') = CHR ''r''"
  "toLowerChar (CHR ''s'') = CHR ''s''"
  "toLowerChar (CHR ''t'') = CHR ''t''"
  "toLowerChar (CHR ''u'') = CHR ''u''"
  "toLowerChar (CHR ''v'') = CHR ''v''"
  "toLowerChar (CHR ''w'') = CHR ''w''"
  "toLowerChar (CHR ''x'') = CHR ''x''"
  "toLowerChar (CHR ''y'') = CHR ''y''"
  "toLowerChar (CHR ''z'') = CHR ''z''"
  "toLowerChar (CHR ''{'') = CHR ''{''"
  "toLowerChar (CHR ''|'') = CHR ''|''"
  "toLowerChar (CHR ''}'') = CHR ''}''"
  "toLowerChar (CHR ''~'') = CHR ''~''"
  by (simp_all add: toLowerChar_def isSpace_def isLowerAlnum_def char_of_eq_iff)

lemma isSpace_ascii:
  "isSpace (CHR '' '') = True"
  "isSpace (CHR ''!'') = False"
  "isSpace (CHR 0x22) = False"
  "isSpace (CHR ''#'') = False"
  "isSpace (CHR ''$'') = False"
  "isSpace (CHR ''%'') = False"
  "isSpace (CHR ''&'') = False"
  "isSpace (CHR 0x27) = False"
  "isSpace (CHR ''('') = False"
  "isSpace (CHR '')'') = False"
  "isSpace (CHR ''*'') = False"
  "isSpace (CHR ''+'') = False"
  "isSpace (CHR '','') = False"
  "isSpace (CHR ''-'') = False"
  "isSpace (CHR ''.'') = False"
  "isSpace (CHR ''/'') = False"
  "isSpace (CHR ''0'') = False"
  "isSpace (CHR ''1'') = False"
  "isSpace (CHR ''2'') = False"
  "isSpace (CHR ''3'') = False"
  "isSpace (CHR ''4'') = False"
  "isSpace (CHR ''5'') = False"
  "isSpace (CHR ''6'') = False"
  "isSpace (CHR ''7'') = False"
  "isSpace (CHR ''8'') = False"
  "isSpace (CHR ''9'') = False"
  "isSpace (CHR '':'') = False"
  "isSpace (CHR '';'') = False"
  "isSpace (CHR ''<'') = False"
  "isSpace (CHR ''='') = False"
  "isSpace (CHR ''>'') = False"
  "isSpace (CHR ''?'') = False"
  "isSpace (CHR ''@'') = False"
  "isSpace (CHR ''A'') = False"
  "isSpace (CHR ''B'') = False"
  "isSpace (CHR ''C'') = False"
  "isSpace (CHR ''D'') = False"
  "isSpace (CHR ''E'') = False"
  "isSpace (CHR ''F'') = False"
  "isSpace (CHR ''G'') = False"
  "isSpace (CHR ''H'') = False"
  "isSpace (CHR ''I'') = False"
  "isSpace (CHR ''J'') = False"
  "isSpace (CHR ''K'') = False"
  "isSpace (CHR ''L'') = False"
  "isSpace (CHR ''M'') = False"
  "isSpace (CHR ''N'') = False"
  "isSpace (CHR ''O'') = False"
  "isSpace (CHR ''P'') = False"
  "isSpace (CHR ''Q'') = False"
  "isSpace (CHR ''R'') = False"
  "isSpace (CHR ''S'') = False"
  "isSpace (CHR ''T'') = False"
  "isSpace (CHR ''U'') = False"
  "isSpace (CHR ''V'') = False"
  "isSpace (CHR ''W'') = False"
  "isSpace (CHR ''X'') = False"
  "isSpace (CHR ''Y'') = False"
  "isSpace (CHR ''Z'') = False"
  "isSpace (CHR ''['') = False"
  "isSpace (CHR 0x5C) = False"
  "isSpace (CHR '']'') = False"
  "isSpace (CHR ''^'') = False"
  "isSpace (CHR ''_'') = False"
  "isSpace (CHR ''`'') = False"
  "isSpace (CHR ''a'') = False"
  "isSpace (CHR ''b'') = False"
  "isSpace (CHR ''c'') = False"
  "isSpace (CHR ''d'') = False"
  "isSpace (CHR ''e'') = False"
  "isSpace (CHR ''f'') = False"
  "isSpace (CHR ''g'') = False"
  "isSpace (CHR ''h'') = False"
  "isSpace (CHR ''i'') = False"
  "isSpace (CHR ''j'') = False"
  "isSpace (CHR ''k'') = False"
  "isSpace (CHR ''l'') = False"
  "isSpace (CHR ''m'') = False"
  "isSpace (CHR ''n'') = False"
  "isSpace (CHR ''o'') = False"
  "isSpace (CHR ''p'') = False"
  "isSpace (CHR ''q'') = False"
  "isSpace (CHR ''r'') = False"
  "isSpace (CHR ''s'') = False"
  "isSpace (CHR ''t'') = False"
  "isSpace (CHR ''u'') = False"
  "isSpace (CHR ''v'') = False"
  "isSpace (CHR ''w'') = False"
  "isSpace (CHR ''x'') = False"
  "isSpace (CHR ''y'') = False"
  "isSpace (CHR ''z'') = False"
  "isSpace (CHR ''{'') = False"
  "isSpace (CHR ''|'') = False"
  "isSpace (CHR ''}'') = False"
  "isSpace (CHR ''~'') = False"
  by (simp_all add: toLowerChar_def isSpace_def isLowerAlnum_def char_of_eq_iff)

lemma isLowerAlnum_ascii:
  "isLowerAlnum (CHR '' '') = False"
  "isLowerAlnum (CHR ''!'') = False"
  "isLowerAlnum (CHR 0x22) = False"
  "isLowerAlnum (CHR ''#'') = False"
  "isLowerAlnum (CHR ''$'') = False"
  "isLowerAlnum (CHR ''%'') = False"
  "isLowerAlnum (CHR ''&'') = False"
  "isLowerAlnum (CHR 0x27) = False"
  "isLowerAlnum (CHR ''('') = False"
  "isLowerAlnum (CHR '')'') = False"
  "isLowerAlnum (CHR ''*'') = False"
  "isLowerAlnum (CHR ''+'') = False"
  "isLowerAlnum (CHR '','') = False"
  "isLowerAlnum (CHR ''-'') = False"
  "isLowerAlnum (CHR ''.'') = False"
  "isLowerAlnum (CHR ''/'') = False"
  "isLowerAlnum (CHR ''0'') = True"
  "isLowerAlnum (CHR ''1'') = True"
  "isLowerAlnum (CHR ''2'') = True"
  "isLowerAlnum (CHR ''3'') = True"
  "isLowerAlnum (CHR ''4'') = True"
  "isLowerAlnum (CHR ''5'') = True"
  "isLowerAlnum (CHR ''6'') = True"
  "isLowerAlnum (CHR ''7'') = True"
  "isLowerAlnum (CHR ''8'') = True"
  "isLowerAlnum (CHR ''9'') = True"
  "isLowerAlnum (CHR '':'') = False"
  "isLowerAlnum (CHR '';'') = False"
  "isLowerAlnum (CHR ''<'') = False"
  "isLowerAlnum (CHR ''='') = False"
  "isLowerAlnum (CHR ''>'') = False"
  "isLowerAlnum (CHR ''?'') = False"
  "isLowerAlnum (CHR ''@'') = False"
  "isLowerAlnum (CHR ''A'') = False"
  "isLowerAlnum (CHR ''B'') = False"
  "isLowerAlnum (CHR ''C'') = False"
  "isLowerAlnum (CHR ''D'') = False"
  "isLowerAlnum (CHR ''E'') = False"
  "isLowerAlnum (CHR ''F'') = False"
  "isLowerAlnum (CHR ''G'') = False"
  "isLowerAlnum (CHR ''H'') = False"
  "isLowerAlnum (CHR ''I'') = False"
  "isLowerAlnum (CHR ''J'') = False"
  "isLowerAlnum (CHR ''K'') = False"
  "isLowerAlnum (CHR ''L'') = False"
  "isLowerAlnum (CHR ''M'') = False"
  "isLowerAlnum (CHR ''N'') = False"
  "isLowerAlnum (CHR ''O'') = False"
  "isLowerAlnum (CHR ''P'') = False"
  "isLowerAlnum (CHR ''Q'') = False"
  "isLowerAlnum (CHR ''R'') = False"
  "isLowerAlnum (CHR ''S'') = False"
  "isLowerAlnum (CHR ''T'') = False"
  "isLowerAlnum (CHR ''U'') = False"
  "isLowerAlnum (CHR ''V'') = False"
  "isLowerAlnum (CHR ''W'') = False"
  "isLowerAlnum (CHR ''X'') = False"
  "isLowerAlnum (CHR ''Y'') = False"
  "isLowerAlnum (CHR ''Z'') = False"
  "isLowerAlnum (CHR ''['') = False"
  "isLowerAlnum (CHR 0x5C) = False"
  "isLowerAlnum (CHR '']'') = False"
  "isLowerAlnum (CHR ''^'') = False"
  "isLowerAlnum (CHR ''_'') = False"
  "isLowerAlnum (CHR ''`'') = False"
  "isLowerAlnum (CHR ''a'') = True"
  "isLowerAlnum (CHR ''b'') = True"
  "isLowerAlnum (CHR ''c'') = True"
  "isLowerAlnum (CHR ''d'') = True"
  "isLowerAlnum (CHR ''e'') = True"
  "isLowerAlnum (CHR ''f'') = True"
  "isLowerAlnum (CHR ''g'') = True"
  "isLowerAlnum (CHR ''h'') = True"
  "isLowerAlnum (CHR ''i'') = True"
  "isLowerAlnum (CHR ''j'') = True"
  "isLowerAlnum (CHR ''k'') = True"
  "isLowerAlnum (CHR ''l'') = True"
  "isLowerAlnum (CHR ''m'') = True"
  "isLowerAlnum (CHR ''n'') = True"
  "isLowerAlnum (CHR ''o'') = True"
  "isLowerAlnum (CHR ''p'') = True"
  "isLowerAlnum (CHR ''q'') = True"
  "isLowerAlnum (CHR ''r'') = True"
  "isLowerAlnum (CHR ''s'') = True"
  "isLowerAlnum (CHR ''t'') = True"
  "isLowerAlnum (CHR ''u'') = True"
  "isLowerAlnum (CHR ''v'') = True"
  "isLowerAlnum (CHR ''w'') = True"
  "isLowerAlnum (CHR ''x'') = True"
  "isLowerAlnum (CHR ''y'') = True"
  "isLowerAlnum (CHR ''z'') = True"
  "isLowerAlnum (CHR ''{'') = False"
  "isLowerAlnum (CHR ''|'') = False"
  "isLowerAlnum (CHR ''}'') = False"
  "isLowerAlnum (CHR ''~'') = False"
  by (simp_all add: toLowerChar_def isSpace_def isLowerAlnum_def char_of_eq_iff)

lemma startsWith_if: "startsWith (c # s) (d # t) = (if c = d then startsWith s t else False)"
  by simp

lemma includesStr_if:
  "includesStr (c # s) t = (if startsWith (c # s) t then True else includesStr s t)"
  by simp

lemmas tables = preservatives_table_def artificialSweeteners_def artificialColors_def
  emulsifiersThickeners_def otherAdditives_def safeIngredients_def ingredientDatabase_def

lemmas records = sodium_nitrite_def sodium_benzoate_def bha_def bht_def potassium_bromate_def
  calcium_propionate_def aspartame_def sucralose_def high_fructose_corn_syrup_def red_40_def
  yellow_5_def yellow_6_def red_3_def caramel_color_def carrageenan_def xanthan_gum_def
  mono_diglycerides_def msg_def maltodextrin_def partially_hydrogenated_oils_def
  citric_acid_def ascorbic_acid_def tocopherols_def stevia_def pectin_def

lemmas strEval = toLowerCase_def toLowerChar_ascii isSpace_ascii isLowerAlnum_ascii
  startsWith_if includesStr_if trim_def normalizeIngredient_def Let_def

section \<open>The matcher\<close>

lemma includesStr_empty: "includesStr s [] = True"
  by (cases s) simp_all

lemma hiddenNamesLoop_list_ex:
  "hiddenNamesLoop n hs
     = list_ex (\<lambda>h. includesStr n (normalizeIngredient h)
                     \<or> includesStr (normalizeIngredient h) n) hs"
  by (induction hs) (simp_all add: Let_def)

lemma matchLoop_step:
  "matchLoop n ((key, data) # rest) = (if entryTest n data then Some data else matchLoop n rest)"
  by (cases "hiddenNames data")
     (auto simp: Let_def entryTest_def aliases_def hiddenNamesLoop_list_ex)

lemma matchLoop_find: "matchLoop n db = find (entryTest n) (map snd db)"
proof (induction db)
  case Nil
  show ?case by simp
next
  case (Cons e db)
  then show ?case
    by (cases e) (simp add: matchLoop_step del: matchLoop.simps)
qed

text \<open>
  A hidden name is only looked at when the name of the entry does not contain the query,
  so the query is not empty and neither is a hidden name that contains it: the test
  \<^verbatim>\<open>if (hiddenMatch)\<close> never rejects.
\<close>

lemma find_hidden_nonempty:
  assumes "find (\<lambda>h. includesStr (toLowerCase h) q) hs = Some h" and "q \<noteq> []"
  shows "h \<noteq> []"
proof
  assume "h = []"
  moreover from assms(1) have "includesStr (toLowerCase h) q"
    by (auto simp: find_Some_iff)
  ultimately show False using assms(2) by (simp add: toLowerCase_def)
qed

lemma searchLoop_first:
  "(case searchLoop q db of [] \<Rightarrow> None | r # rest \<Rightarrow> Some (ingredient r))
     = find (searchTest q) (map snd db)"
proof (induction db)
  case Nil
  show ?case by simp
next
  case (Cons e db)
  obtain key ingr where e: "e = (key, ingr)" by (cases e)
  show ?case
  proof (cases "includesStr (toLowerCase (rec_name ingr)) q")
    case True
    then show ?thesis by (simp add: e searchTest_def)
  next
    case False
    then have q: "q \<noteq> []" by (auto simp: includesStr_empty)
    show ?thesis
    proof (cases "find (\<lambda>h. includesStr (toLowerCase h) q) (aliases ingr)")
      case None
      then have "\<not> list_ex (\<lambda>h. includesStr (toLowerCase h) q) (aliases ingr)"
        by (simp add: find_None_iff list_ex_iff)
      with False None Cons show ?thesis
        by (auto simp: e searchTest_def aliases_def split: option.splits)
    next
      case (Some h)
      then have "list_ex (\<lambda>h. includesStr (toLowerCase h) q) (aliases ingr)"
        by (auto simp: find_Some_iff list_ex_iff)
      moreover from Some q have "h \<noteq> []" by (rule find_hidden_nonempty)
      ultimately show ?thesis using False Some
        by (auto simp: e searchTest_def aliases_def split: option.splits)
    qed
  qed
qed

lemma match_acid: "findIngredientMatch ''Acid'' = Some sodium_benzoate"
  by (simp add: findIngredientMatch_def searchIngredients_def tables records strEval
        del: includesStr.simps(2) startsWith.simps(3))

lemma match_spec_acid: "match_spec ''Acid'' = Some citric_acid"
  by (simp add: match_spec_def firstRecord_def tables records strEval
        del: includesStr.simps(2) startsWith.simps(3))

text \<open>
  Claim C2, as stated: the matcher returns the record that the four-pass algorithm of the
  specification selects. On the raw name \<^verbatim>\<open>Acid\<close> the four-pass algorithm selects
  citric acid in its first pass (the first name containing the word), while the code
  returns sodium benzoate: its search also looks at hidden names, entry by entry, and the
  second entry has the hidden name \<^verbatim>\<open>Sodium salt of benzoic acid\<close>.
\<close>

theorem match_spec_counterexample: "findIngredientMatch ''Acid'' \<noteq> match_spec ''Acid''"
  unfolding match_acid match_spec_acid
  by (simp add: sodium_benzoate_def citric_acid_def)

text \<open>
  Claim C2, amended. For every raw name the matcher returns the first hit of two passes
  over the table in insertion order, the first pass before the second:
  (1) the first entry whose lower-cased name, or one of whose lower-cased hidden names,
  contains the lower-cased and trimmed raw name (no normalization);
  (2) the first entry that has an equal normalized name, or whose normalized name contains
  or is contained in the normalized raw name, or one of whose normalized hidden names
  contains or is contained in the normalized raw name;
  otherwise no entry.
\<close>

theorem findIngredientMatch_two_pass: "findIngredientMatch rawName = match_two_pass rawName"
proof -
  let ?q = "trim (toLowerCase rawName)"
  show ?thesis
  proof (cases "searchLoop ?q ingredientDatabase")
    case Nil
    with searchLoop_first [of ?q ingredientDatabase] show ?thesis
      by (simp add: findIngredientMatch_def match_two_pass_def searchIngredients_def
            firstRecord_def matchLoop_find Let_def)
  next
    case (Cons r rest)
    with searchLoop_first [of ?q ingredientDatabase, symmetric] show ?thesis
      by (simp add: findIngredientMatch_def match_two_pass_def searchIngredients_def
            firstRecord_def Let_def)
  qed
qed

section \<open>The unknown-ingredient assessment\<close>

lemma assess_is_table: "assessUnknownIngredient rawName = classifyUnknown_spec rawName"
  by (simp add: assessUnknownIngredient_def classifyUnknown_spec_def decisionTable_def
        containsAny_def isHiddenSugar_def checkForMSG_def Let_def toLowerCase_def
        toLowerChar_ascii)

lemma match_quinoa: "findIngredientMatch ''Organic Quinoa Flakes'' = None"
  by (simp add: findIngredientMatch_def searchIngredients_def tables records strEval
        del: includesStr.simps(2) startsWith.simps(3))

lemma assess_quinoa:
  "assessUnknownIngredient ''Organic Quinoa Flakes''
     = \<lparr>a_score = 80, a_concern = Low, a_category = ''Natural Ingredient'', a_note = None\<rparr>"
  by (simp add: assessUnknownIngredient_def isHiddenSugar_def checkForMSG_def
        hiddenSugarNames_def hiddenMSGNames_def strEval
        del: includesStr.simps(2) startsWith.simps(3))

lemma processIngredient_score:
  "p_score (last (parsedIngredients (processIngredient st ingredientName)))
     = (case findIngredientMatch ingredientName of
          Some match \<Rightarrow> rec_score match
        | None \<Rightarrow> a_score (assessUnknownIngredient ingredientName))"
  by (simp add: processIngredient_def Let_def split: option.splits)

text \<open>
  Claim C5. The assessment of an unknown ingredient equals the decision table of the
  specification, the first matching rule winning, with the tests made on the lower-cased
  raw name: hidden sugar (30, moderate), always-MSG (50, moderate), often-MSG (60,
  moderate), red flag (40, moderate), yellow flag (50, moderate), green flag (80, low),
  default (70, low). The scoring pass consults it exactly when the matcher finds no entry.
  \<^verbatim>\<open>Organic Quinoa Flakes\<close>, which the matcher does not find, is assessed as score 80,
  concern low, category \<^verbatim>\<open>Natural Ingredient\<close>.
\<close>

theorem assessUnknownIngredient_decision_table:
  "assessUnknownIngredient rawName = classifyUnknown_spec rawName
   \<and> p_score (last (parsedIngredients (processIngredient st rawName)))
       = (case findIngredientMatch rawName of
            Some match \<Rightarrow> rec_score match
          | None \<Rightarrow> a_score (classifyUnknown_spec rawName))
   \<and> findIngredientMatch ''Organic Quinoa Flakes'' = None
   \<and> assessUnknownIngredient ''Organic Quinoa Flakes''
       = \<lparr>a_score = 80, a_concern = Low, a_category = ''Natural Ingredient'', a_note = None\<rparr>"
  by (simp only: assess_is_table [symmetric] processIngredient_score match_quinoa assess_quinoa
        simp_thms)

section \<open>The scoring scenario\<close>

lemma match_sodium_nitrite: "findIngredientMatch ''Sodium Nitrite'' = Some sodium_nitrite"
  by (simp add: findIngredientMatch_def searchIngredients_def tables records strEval
        del: includesStr.simps(2) startsWith.simps(3))

lemma match_hfcs: "findIngredientMatch ''High Fructose Corn Syrup'' = Some high_fructose_corn_syrup"
  by (simp add: findIngredientMatch_def searchIngredients_def tables records strEval
        del: includesStr.simps(2) startsWith.simps(3))

lemma match_citric_acid: "findIngredientMatch ''Citric Acid'' = Some citric_acid"
  by (simp add: findIngredientMatch_def searchIngredients_def tables records strEval
        del: includesStr.simps(2) startsWith.simps(3))

lemma sugar_scenario:
  "isHiddenSugar ''Sodium Nitrite'' = False"
  "isHiddenSugar ''High Fructose Corn Syrup'' = True"
  "isHiddenSugar ''Citric Acid'' = False"
  by (simp_all add: isHiddenSugar_def hiddenSugarNames_def strEval
        del: includesStr.simps(2) startsWith.simps(3))

lemma scenario_state:
  "foldl processIngredient initialState scenario
     = \<lparr>parsedIngredients =
          [\<lparr>p_id = ''sodium-nitrite'', p_name = ''Sodium Nitrite'', p_score = 25,
            p_category = ''Preservative'', p_concern = High, p_note = None,
            foundInDatabase = True\<rparr>,
           \<lparr>p_id = ''high-fructose-corn-syrup'', p_name = ''High Fructose Corn Syrup'',
            p_score = 30, p_category = ''Sweetener'', p_concern = High, p_note = None,
            foundInDatabase = True\<rparr>,
           \<lparr>p_id = ''citric-acid'', p_name = ''Citric Acid'', p_score = 90,
            p_category = ''Acidulant/Preservative'', p_concern = Low, p_note = None,
            foundInDatabase = True\<rparr>],
        concerns =
          \<lparr>sugar = \<lparr>count = 1, names = [''High Fructose Corn Syrup'']\<rparr>,
           preservatives = \<lparr>count = 2, names = [''Sodium Nitrite'', ''Citric Acid'']\<rparr>,
           artificial = \<lparr>count = 0, names = []\<rparr>\<rparr>,
        profileAlerts =
          [\<lparr>profile = ''Kids'',
            message = ''Contains Sodium Nitrite - caution advised for children''\<rparr>,
           \<lparr>profile = ''Heart Health'',
            message = ''Contains Sodium Nitrite - monitor for heart health''\<rparr>,
           \<lparr>profile = ''Diabetic'',
            message = ''Contains High Fructose Corn Syrup - watch glycemic impact''\<rparr>],
        totalScore = 145,
        highConcernCount = 2\<rparr>"
  by (simp add: scenario_def initialState_def processIngredient_def match_sodium_nitrite
        match_hfcs match_citric_acid sugar_scenario trackConcerns_def trackAlerts_def
        pushAlert_def bump_def sodium_nitrite_def high_fructose_corn_syrup_def citric_acid_def
        strEval del: includesStr.simps(2) startsWith.simps(3))

text \<open>
  Claim C1, as stated: the scenario list scores exactly 40, with one high-concern
  ingredient and one preservative. The table marks both sodium nitrite and high fructose
  corn syrup as high concern, and the category of citric acid, \<^verbatim>\<open>Acidulant/Preservative\<close>,
  contains the word preservative.
\<close>

theorem scenario_score_counterexample:
  "overallScore (parseIngredients \<lparr>dateNow = 0, newDateISO = ''1970-01-01T00:00:00.000Z''\<rparr>
       \<lparr>productName = None, brand = None, ingredients = scenario, rawText = None\<rparr>) \<noteq> 40
   \<and> count (preservatives (r_concerns
         (parseIngredients \<lparr>dateNow = 0, newDateISO = ''1970-01-01T00:00:00.000Z''\<rparr>
            \<lparr>productName = None, brand = None, ingredients = scenario, rawText = None\<rparr>))) \<noteq> 1"
  by (simp add: parseIngredients_def scenario_state roundDiv_def)

text \<open>
  Claim C1, amended. Scoring the scenario list against the shipped table gives an overall
  score of exactly 32: the base average round((25 + 30 + 90) / 3) = 48 minus a penalty of
  8 for each of the two high-concern ingredients (the concerns are high, high, low), with
  tallies sugar = 1 (high fructose corn syrup), preservatives = 2 (sodium nitrite and
  citric acid) and artificial = 0; the total of 3 is below the bulk threshold.
\<close>

theorem scenario_score:
  "overallScore (parseIngredients clk (aiRes\<lparr>ingredients := scenario\<rparr>)) = 32
   \<and> overallScore (parseIngredients clk (aiRes\<lparr>ingredients := scenario\<rparr>))
       = roundDiv (25 + 30 + 90) 3 - 2 * 8
   \<and> roundDiv (25 + 30 + 90) 3 = 48
   \<and> map p_concern (r_ingredients (parseIngredients clk (aiRes\<lparr>ingredients := scenario\<rparr>)))
       = [High, High, Low]
   \<and> sugar (r_concerns (parseIngredients clk (aiRes\<lparr>ingredients := scenario\<rparr>)))
       = \<lparr>count = 1, names = [''High Fructose Corn Syrup'']\<rparr>
   \<and> preservatives (r_concerns (parseIngredients clk (aiRes\<lparr>ingredients := scenario\<rparr>)))
       = \<lparr>count = 2, names = [''Sodium Nitrite'', ''Citric Acid'']\<rparr>
   \<and> artificial (r_concerns (parseIngredients clk (aiRes\<lparr>ingredients := scenario\<rparr>)))
       = \<lparr>count = 0, names = []\<rparr>"
  by (simp add: parseIngredients_def scenario_state roundDiv_def)

end
